theory Spec2Isabelle
  imports Complex_Main "HOL-Library.List_Lexorder" "HOL-Library.Char_ord"
begin

section \<open>JavaScript values used by the pipeline\<close>

text \<open>
  The numbers stored in the processed records are finite JavaScript numbers; they are
  modelled as \<^typ>\<open>real\<close> (rounding is outside the model). A quotient is the one place
  where the code can leave the finite numbers, so the result of \<open>/\<close> is a \<open>number\<close> that can
  also be \<open>NaN\<close> or an infinity: HOL's own \<open>x / 0 = 0\<close> would hide the very case the guards of
  the KPI functions exist for.
\<close>

datatype number = Num real | NaN | PosInfinity | NegInfinity

definition js_div :: "real \<Rightarrow> real \<Rightarrow> number" where
  "js_div a b =
     (if b \<noteq> 0 then Num (a / b)
      else if a = 0 then NaN
      else if 0 < a then PosInfinity else NegInfinity)"

fun js_times :: "number \<Rightarrow> real \<Rightarrow> number" where
  "js_times (Num a) r = Num (a * r)"
| "js_times NaN r = NaN"
| "js_times PosInfinity r = (if 0 < r then PosInfinity else if r < 0 then NegInfinity else NaN)"
| "js_times NegInfinity r = (if 0 < r then NegInfinity else if r < 0 then PosInfinity else NaN)"

text \<open>
  A \<open>Date\<close> object holds a time value: milliseconds since the epoch, or \<open>NaN\<close> for an
  Invalid Date (\<open>None\<close> here). Every object is truthy, an Invalid Date included. The
  relational operators convert both dates to their time values, and a comparison with
  \<open>NaN\<close> is false.
\<close>

datatype Date = Date (getTime: "int option")

fun truthy_Date :: "Date \<Rightarrow> bool" where
  "truthy_Date (Date t) = True"

definition date_ge :: "Date \<Rightarrow> Date \<Rightarrow> bool" where
  "date_ge a b = (case (getTime a, getTime b) of (Some x, Some y) \<Rightarrow> x \<ge> y | _ \<Rightarrow> False)"

definition date_le :: "Date \<Rightarrow> Date \<Rightarrow> bool" where
  "date_le a b = (case (getTime a, getTime b) of (Some x, Some y) \<Rightarrow> x \<le> y | _ \<Rightarrow> False)"

text \<open>A string is falsy exactly when it is empty.\<close>

definition truthy_string :: "string \<Rightarrow> bool" where
  "truthy_string s = (s \<noteq> [])"

section \<open>Processed record types (dataIntegrator.ts, lines 576-622)\<close>

record ProcessedOpportunity =
  date :: Date
  jobId :: string
  customer :: string
  email :: string
  phone :: string
  status :: string
  technician :: string
  membershipOpportunity :: bool
  membershipSold :: bool
  revenue :: real

record ProcessedLineItem =
  invoiceDate :: Date
  customer :: string
  jobId :: string
  technician :: string
  category :: string
  lineItem :: string
  quantity :: real
  price :: real

record ProcessedJobTime =
  firstAppointment :: Date
  jobId :: string
  jobStatus :: string
  customer :: string
  technician :: string
  opportunity :: string
  total :: real
  totalTime :: real
  soldTime :: real
  jobEfficiency :: real

record ProcessedAppointment =
  appointmentId :: string
  scheduledFor :: Date
  jobId :: string
  customer :: string
  apptStatus :: string
  technician :: string
  serviceCategory :: string
  revenue :: real

section \<open>Record cleaning (dataIntegrator.ts, lines 172-248)\<close>

definition cleanOpportunitiesData :: "ProcessedOpportunity list \<Rightarrow> ProcessedOpportunity list" where
  "cleanOpportunitiesData opportunities = filter (\<lambda>opp.
     if \<not> truthy_string (ProcessedOpportunity.jobId opp)
        \<or> \<not> truthy_string (ProcessedOpportunity.technician opp)
        \<or> \<not> truthy_Date (date opp) then False
     else if ProcessedOpportunity.revenue opp < 0 then False
     else True) opportunities"

definition cleanLineItemsData :: "ProcessedLineItem list \<Rightarrow> ProcessedLineItem list" where
  "cleanLineItemsData lineItems = filter (\<lambda>item.
     if \<not> truthy_string (ProcessedLineItem.jobId item)
        \<or> \<not> truthy_string (ProcessedLineItem.technician item)
        \<or> \<not> truthy_Date (invoiceDate item) then False
     else if price item < 0 then False
     else if quantity item \<le> 0 then False
     else True) lineItems"

definition cleanJobTimesData :: "ProcessedJobTime list \<Rightarrow> ProcessedJobTime list" where
  "cleanJobTimesData jobTimes = filter (\<lambda>job.
     if \<not> truthy_string (ProcessedJobTime.jobId job)
        \<or> \<not> truthy_string (ProcessedJobTime.technician job)
        \<or> \<not> truthy_Date (firstAppointment job) then False
     else if ProcessedJobTime.jobEfficiency job < 0 \<or> ProcessedJobTime.jobEfficiency job > 100 then False
     else True) jobTimes"

definition cleanAppointmentsData :: "ProcessedAppointment list \<Rightarrow> ProcessedAppointment list" where
  "cleanAppointmentsData appointments = filter (\<lambda>appt.
     if \<not> truthy_string (ProcessedAppointment.jobId appt)
        \<or> \<not> truthy_string (ProcessedAppointment.technician appt)
        \<or> \<not> truthy_Date (scheduledFor appt) then False
     else if ProcessedAppointment.revenue appt < 0 then False
     else True) appointments"

section \<open>Service keywords (dataIntegrator.ts, lines 1068-1093)\<close>

text \<open>
  A string is the list of its code units, each below 256 (Basic Latin and Latin-1);
  strings with code units beyond that range are outside the model. In this range the
  upper case letters are \<open>A\<close> to \<open>Z\<close> and the code units \<open>0xC0\<close> to \<open>0xDE\<close> without the
  multiplication sign \<open>0xD7\<close>, and the lower case letter of each is 32 above it.
\<close>

definition toLowerCase_char :: "char \<Rightarrow> char" where
  "toLowerCase_char c =
     (if (CHR ''A'' \<le> c \<and> c \<le> CHR ''Z'')
         \<or> (CHR 0xC0 \<le> c \<and> c \<le> CHR 0xDE \<and> c \<noteq> CHR 0xD7)
      then char_of (of_char c + (32::nat)) else c)"

definition toLowerCase :: "string \<Rightarrow> string" where
  "toLowerCase s = map toLowerCase_char s"

fun startsWith :: "string \<Rightarrow> string \<Rightarrow> bool" where
  "startsWith s [] = True"
| "startsWith [] (k # ks) = False"
| "startsWith (c # cs) (k # ks) = (c = k \<and> startsWith cs ks)"

fun str_includes :: "string \<Rightarrow> string \<Rightarrow> bool" where
  "str_includes [] k = (k = [])"
| "str_includes (c # cs) k = (startsWith (c # cs) k \<or> str_includes cs k)"

text \<open>The argument of \<open>containsServiceKeywords\<close> may be null or undefined: \<open>None\<close>.\<close>

definition containsServiceKeywords :: "string option \<Rightarrow> string list \<Rightarrow> bool" where
  "containsServiceKeywords lineItemText keywords =
     (case lineItemText of
        None \<Rightarrow> False
      | Some s \<Rightarrow>
          if \<not> truthy_string s then False
          else (let lowerLineItem = toLowerCase s
                in list_ex (\<lambda>keyword. str_includes lowerLineItem (toLowerCase keyword)) keywords))"

definition getHydroJettingKeywords :: "string list" where
  "getHydroJettingKeywords = [''hydro'', ''jetting'', ''high pressure'', ''pressure wash'']"

definition getDescalingKeywords :: "string list" where
  "getDescalingKeywords =
     [''descal'', ''scale removal'', ''cast iron pipe descaling'', ''descaling'']"

definition getWaterHeaterKeywords :: "string list" where
  "getWaterHeaterKeywords =
     [''water heater'', ''hot water'', ''heater install'', ''heater replacement'']"

section \<open>Technician names (dataIntegrator.ts, lines 1038-1063)\<close>

text \<open>
  The white space that \<open>trim\<close>, the class \<open>\s\<close> of regular expressions and the leading
  skip of \<open>parseInt\<close> and \<open>parseFloat\<close> recognise: tab, line feed, vertical tab, form
  feed, carriage return, space and the no-break space \<open>U+00A0\<close>.
\<close>

definition isWhiteSpace :: "char \<Rightarrow> bool" where
  "isWhiteSpace c =
     (c \<in> set [CHR 0x09, CHR 0x0A, CHR 0x0B, CHR 0x0C, CHR 0x0D, CHR 0x20, CHR 0xA0])"

definition trim :: "string \<Rightarrow> string" where
  "trim s = rev (dropWhile isWhiteSpace (rev (dropWhile isWhiteSpace s)))"

text \<open>\<open>replace(/\s+/g, ' ')\<close>: every maximal run of white space becomes one space.\<close>

function replace_whitespace_runs :: "string \<Rightarrow> string" where
  "replace_whitespace_runs [] = []"
| "replace_whitespace_runs (c # cs) =
     (if isWhiteSpace c then CHR '' '' # replace_whitespace_runs (dropWhile isWhiteSpace cs)
      else c # replace_whitespace_runs cs)"
  by pat_completeness auto
termination
  by (relation "measure length") (auto simp: length_dropWhile_le less_Suc_eq_le)

text \<open>
  The alias table is an object literal, so a property read on it that finds no own
  property goes on to \<open>Object.prototype\<close>. The result of such a read is not a string (a
  function, or the prototype object itself for \<open>__proto__\<close>); \<open>Inherited\<close> stands for it.
\<close>

datatype js_value = Str string | Inherited string

definition nameMap :: "(string \<times> string) list" where
  "nameMap =
     [(''Aaron M'', ''Aaron McDaniel''),
      (''Aaron'', ''Aaron McDaniel''),
      (''Jake H'', ''Jake Harter''),
      (''Jake'', ''Jake Harter''),
      (''Steven S'', ''Steven Springer''),
      (''Steven'', ''Steven Springer''),
      (''Colin M'', ''Colin Myers''),
      (''Colin'', ''Colin Myers''),
      (''Brennan E'', ''Brennan Ebbesmier''),
      (''Brennan'', ''Brennan Ebbesmier''),
      (''Justice B'', ''Justice Burns''),
      (''Justice'', ''Justice Burns''),
      (''Alex P'', ''Alex P'')]"

definition Object_prototype_properties :: "string list" where
  "Object_prototype_properties =
     [''constructor'', ''hasOwnProperty'', ''isPrototypeOf'', ''propertyIsEnumerable'',
      ''toLocaleString'', ''toString'', ''valueOf'', ''__proto__'',
      ''__defineGetter__'', ''__defineSetter__'', ''__lookupGetter__'', ''__lookupSetter__'']"

text \<open>\<open>nameMap[key]\<close>; \<open>None\<close> is \<open>undefined\<close>.\<close>

definition nameMap_get :: "string \<Rightarrow> js_value option" where
  "nameMap_get key =
     (case map_of nameMap key of
        Some v \<Rightarrow> Some (Str v)
      | None \<Rightarrow> if key \<in> set Object_prototype_properties then Some (Inherited key) else None)"

fun truthy_value :: "js_value \<Rightarrow> bool" where
  "truthy_value (Str s) = truthy_string s"
| "truthy_value (Inherited k) = True"

definition normalizeTechnicianName :: "string option \<Rightarrow> js_value" where
  "normalizeTechnicianName name =
     (case name of
        None \<Rightarrow> Str ''Unknown Technician''
      | Some s \<Rightarrow>
          if \<not> truthy_string s then Str ''Unknown Technician''
          else (let normalized = replace_whitespace_runs (trim s)
                in case nameMap_get normalized of
                     Some v \<Rightarrow> if truthy_value v then v else Str normalized
                   | None \<Rightarrow> Str normalized))"

section \<open>The KPI engine (dataIntegrator.ts, lines 339-512 and 945-947)\<close>

definition isDateInWeekRange :: "Date \<Rightarrow> Date \<Rightarrow> Date \<Rightarrow> bool" where
  "isDateInWeekRange d weekStart weekEnd = (date_ge d weekStart \<and> date_le d weekEnd)"

text \<open>
  The four filtered collections that \<open>calculateTechnicianKPIs\<close> computes first, under the
  names of its local constants.
\<close>

definition techOpportunities ::
  "string \<Rightarrow> ProcessedOpportunity list \<Rightarrow> Date \<Rightarrow> Date \<Rightarrow> ProcessedOpportunity list" where
  "techOpportunities tech opps weekStart weekEnd =
     filter (\<lambda>opp. ProcessedOpportunity.technician opp = tech
                   \<and> isDateInWeekRange (date opp) weekStart weekEnd) opps"

definition techLineItems ::
  "string \<Rightarrow> ProcessedLineItem list \<Rightarrow> Date \<Rightarrow> Date \<Rightarrow> ProcessedLineItem list" where
  "techLineItems tech items weekStart weekEnd =
     filter (\<lambda>item. ProcessedLineItem.technician item = tech
                    \<and> isDateInWeekRange (invoiceDate item) weekStart weekEnd) items"

definition techJobTimes ::
  "string \<Rightarrow> ProcessedJobTime list \<Rightarrow> Date \<Rightarrow> Date \<Rightarrow> ProcessedJobTime list" where
  "techJobTimes tech jobs weekStart weekEnd =
     filter (\<lambda>job. ProcessedJobTime.technician job = tech
                   \<and> isDateInWeekRange (firstAppointment job) weekStart weekEnd) jobs"

definition techAppointments ::
  "string \<Rightarrow> ProcessedAppointment list \<Rightarrow> Date \<Rightarrow> Date \<Rightarrow> ProcessedAppointment list" where
  "techAppointments tech appts weekStart weekEnd =
     filter (\<lambda>appt. ProcessedAppointment.technician appt = tech
                    \<and> isDateInWeekRange (scheduledFor appt) weekStart weekEnd) appts"

text \<open>\<open>reduce\<close> with an initial value is a left fold.\<close>

definition calculateAverageTicketValue ::
  "ProcessedOpportunity list \<Rightarrow> ProcessedAppointment list \<Rightarrow> number" where
  "calculateAverageTicketValue opps appts =
     (let completedJobs = length (filter (\<lambda>opp. status opp = ''Won'') opps)
                        + length (filter (\<lambda>appt. apptStatus appt = ''Completed'') appts)
      in if completedJobs = 0 then Num 0
         else (let totalRevenue =
                     foldl (\<lambda>sum opp. sum + ProcessedOpportunity.revenue opp) 0 opps
                   + foldl (\<lambda>sum appt. sum + ProcessedAppointment.revenue appt) 0 appts
               in js_div totalRevenue (real completedJobs)))"

definition calculateJobCloseRate :: "ProcessedOpportunity list \<Rightarrow> number" where
  "calculateJobCloseRate opps =
     (if length opps = 0 then Num 0
      else (let wonJobs = length (filter (\<lambda>opp. status opp = ''Won'') opps)
            in js_times (js_div (real wonJobs) (real (length opps))) 100))"

definition calculateWeeklyRevenue ::
  "ProcessedOpportunity list \<Rightarrow> ProcessedAppointment list \<Rightarrow> number" where
  "calculateWeeklyRevenue opps appts =
     (let opportunitiesRevenue =
            foldl (\<lambda>sum opp. sum + ProcessedOpportunity.revenue opp) 0 opps;
          appointmentsRevenue =
            foldl (\<lambda>sum appt. sum + ProcessedAppointment.revenue appt) 0 appts
      in Num (opportunitiesRevenue + appointmentsRevenue))"

definition calculateJobEfficiency :: "ProcessedJobTime list \<Rightarrow> number" where
  "calculateJobEfficiency jobs =
     (let validEfficiencies =
            map (\<lambda>job. ProcessedJobTime.jobEfficiency job)
              (filter (\<lambda>job. ProcessedJobTime.jobEfficiency job > 0) jobs)
      in if length validEfficiencies = 0 then Num 0
         else (let sum = foldl (\<lambda>total efficiency. total + efficiency) 0 validEfficiencies
               in js_div sum (real (length validEfficiencies))))"

definition calculateMembershipWinRate :: "ProcessedOpportunity list \<Rightarrow> number" where
  "calculateMembershipWinRate opps =
     (let membershipOpportunities = filter (\<lambda>opp. membershipOpportunity opp) opps
      in if length membershipOpportunities = 0 then Num 0
         else (let membershipsSold =
                     length (filter (\<lambda>opp. membershipSold opp) membershipOpportunities)
               in js_times (js_div (real membershipsSold)
                                   (real (length membershipOpportunities))) 100))"

definition calculateHydroJettingJobsSold :: "ProcessedLineItem list \<Rightarrow> number" where
  "calculateHydroJettingJobsSold items =
     (let keywords = getHydroJettingKeywords
      in Num (real (length
           (filter (\<lambda>item. containsServiceKeywords (Some (lineItem item)) keywords) items))))"

definition calculateDescalingJobsSold :: "ProcessedLineItem list \<Rightarrow> number" where
  "calculateDescalingJobsSold items =
     (let keywords = getDescalingKeywords
      in Num (real (length
           (filter (\<lambda>item. containsServiceKeywords (Some (lineItem item)) keywords) items))))"

definition calculateWaterHeaterJobsSold :: "ProcessedLineItem list \<Rightarrow> number" where
  "calculateWaterHeaterJobsSold items =
     (let keywords = getWaterHeaterKeywords
      in Num (real (length
           (filter (\<lambda>item. containsServiceKeywords (Some (lineItem item)) keywords) items))))"

record TechnicianKPIs =
  technician :: string
  averageTicketValue :: number
  jobCloseRate :: number
  weeklyRevenue :: number
  jobEfficiency :: number
  membershipWinRate :: number
  hydroJettingJobsSold :: number
  descalingJobsSold :: number
  waterHeaterJobsSold :: number

definition calculateTechnicianKPIs ::
  "string \<Rightarrow> ProcessedOpportunity list \<Rightarrow> ProcessedLineItem list \<Rightarrow> ProcessedJobTime list
   \<Rightarrow> ProcessedAppointment list \<Rightarrow> Date \<Rightarrow> Date \<Rightarrow> TechnicianKPIs" where
  "calculateTechnicianKPIs tech opps items jobs appts weekStart weekEnd =
     \<lparr>TechnicianKPIs.technician = tech,
      averageTicketValue =
        calculateAverageTicketValue (techOpportunities tech opps weekStart weekEnd)
          (techAppointments tech appts weekStart weekEnd),
      jobCloseRate = calculateJobCloseRate (techOpportunities tech opps weekStart weekEnd),
      weeklyRevenue =
        calculateWeeklyRevenue (techOpportunities tech opps weekStart weekEnd)
          (techAppointments tech appts weekStart weekEnd),
      TechnicianKPIs.jobEfficiency =
        calculateJobEfficiency (techJobTimes tech jobs weekStart weekEnd),
      membershipWinRate =
        calculateMembershipWinRate (techOpportunities tech opps weekStart weekEnd),
      hydroJettingJobsSold =
        calculateHydroJettingJobsSold (techLineItems tech items weekStart weekEnd),
      descalingJobsSold =
        calculateDescalingJobsSold (techLineItems tech items weekStart weekEnd),
      waterHeaterJobsSold =
        calculateWaterHeaterJobsSold (techLineItems tech items weekStart weekEnd)\<rparr>"

text \<open>
  A \<open>Set\<close> of strings iterates in insertion order: it is the list of its members in the
  order in which each was first added.
\<close>

definition Set_add :: "'a list \<Rightarrow> 'a \<Rightarrow> 'a list" where
  "Set_add s x = (if x \<in> set s then s else s @ [x])"

definition calculateAllTechnicianKPIs ::
  "ProcessedOpportunity list \<Rightarrow> ProcessedLineItem list \<Rightarrow> ProcessedJobTime list
   \<Rightarrow> ProcessedAppointment list \<Rightarrow> Date \<Rightarrow> Date \<Rightarrow> TechnicianKPIs list" where
  "calculateAllTechnicianKPIs opps items jobs appts weekStart weekEnd =
     (let n0 = [];
          n1 = foldl (\<lambda>s opp. Set_add s (ProcessedOpportunity.technician opp)) n0 opps;
          n2 = foldl (\<lambda>s item. Set_add s (ProcessedLineItem.technician item)) n1 items;
          n3 = foldl (\<lambda>s job. Set_add s (ProcessedJobTime.technician job)) n2 jobs;
          technicianNames =
            foldl (\<lambda>s appt. Set_add s (ProcessedAppointment.technician appt)) n3 appts
      in map (\<lambda>tech. calculateTechnicianKPIs tech opps items jobs appts weekStart weekEnd)
           technicianNames)"

section \<open>The cross-source integrator (dataIntegrator.ts, lines 129-167 and 253-286)\<close>

text \<open>\<open>Array.from(names).sort()\<close>: the members in ascending order of their code units.\<close>

definition extractTechnicianNames ::
  "ProcessedOpportunity list \<Rightarrow> ProcessedLineItem list \<Rightarrow> ProcessedJobTime list
   \<Rightarrow> ProcessedAppointment list \<Rightarrow> string list" where
  "extractTechnicianNames opps items jobs appts =
     (let n0 = [];
          n1 = foldl (\<lambda>s opp. Set_add s (ProcessedOpportunity.technician opp)) n0 opps;
          n2 = foldl (\<lambda>s item. Set_add s (ProcessedLineItem.technician item)) n1 items;
          n3 = foldl (\<lambda>s job. Set_add s (ProcessedJobTime.technician job)) n2 jobs;
          names = foldl (\<lambda>s appt. Set_add s (ProcessedAppointment.technician appt)) n3 appts
      in sort names)"

definition extractJobIds ::
  "ProcessedOpportunity list \<Rightarrow> ProcessedLineItem list \<Rightarrow> ProcessedJobTime list
   \<Rightarrow> ProcessedAppointment list \<Rightarrow> string list" where
  "extractJobIds opps items jobs appts =
     (let i0 = [];
          i1 = foldl (\<lambda>s opp. Set_add s (ProcessedOpportunity.jobId opp)) i0 opps;
          i2 = foldl (\<lambda>s item. Set_add s (ProcessedLineItem.jobId item)) i1 items;
          i3 = foldl (\<lambda>s job. Set_add s (ProcessedJobTime.jobId job)) i2 jobs;
          ids = foldl (\<lambda>s appt. Set_add s (ProcessedAppointment.jobId appt)) i3 appts
      in sort ids)"

record IntegratedData =
  opportunities :: "ProcessedOpportunity list"
  lineItems :: "ProcessedLineItem list"
  jobTimes :: "ProcessedJobTime list"
  appointments :: "ProcessedAppointment list"
  technicianNames :: "string list"
  jobIds :: "string list"

text \<open>The four file handles; \<open>None\<close> is a handle that is null.\<close>

record 'f UploadedFiles =
  opportunities :: "'f option"
  lineItems :: "'f option"
  jobTimes :: "'f option"
  appointments :: "'f option"

text \<open>
  The four file parsers read a workbook through the spreadsheet library and build dates in
  the local time zone, so they are parameters here: each maps a file to the records it
  resolves with, or to the message of the error it rejects with (\<open>Inl\<close>). \<open>Promise.all\<close>
  rejects as soon as one of its promises does; which rejection comes first is a matter of
  timing, and the model reports the first in the order of the array.
\<close>

definition processAndIntegrateFiles ::
  "('f \<Rightarrow> string + ProcessedOpportunity list) \<Rightarrow> ('f \<Rightarrow> string + ProcessedLineItem list)
   \<Rightarrow> ('f \<Rightarrow> string + ProcessedJobTime list) \<Rightarrow> ('f \<Rightarrow> string + ProcessedAppointment list)
   \<Rightarrow> 'f UploadedFiles \<Rightarrow> string + IntegratedData" where
  "processAndIntegrateFiles parseOpportunitiesFile parseLineItemsFile parseJobTimesFile
       parseAppointmentsFile files =
     (case (case UploadedFiles.opportunities files of
              Some f \<Rightarrow> parseOpportunitiesFile f | None \<Rightarrow> Inr []) of
        Inl e \<Rightarrow> Inl e
      | Inr opps \<Rightarrow>
     (case (case UploadedFiles.lineItems files of
              Some f \<Rightarrow> parseLineItemsFile f | None \<Rightarrow> Inr []) of
        Inl e \<Rightarrow> Inl e
      | Inr items \<Rightarrow>
     (case (case UploadedFiles.jobTimes files of
              Some f \<Rightarrow> parseJobTimesFile f | None \<Rightarrow> Inr []) of
        Inl e \<Rightarrow> Inl e
      | Inr jobs \<Rightarrow>
     (case (case UploadedFiles.appointments files of
              Some f \<Rightarrow> parseAppointmentsFile f | None \<Rightarrow> Inr []) of
        Inl e \<Rightarrow> Inl e
      | Inr appts \<Rightarrow>
          (let cleanedOpportunities = cleanOpportunitiesData opps;
               cleanedLineItems = cleanLineItemsData items;
               cleanedJobTimes = cleanJobTimesData jobs;
               cleanedAppointments = cleanAppointmentsData appts
           in Inr \<lparr>IntegratedData.opportunities = cleanedOpportunities,
                    IntegratedData.lineItems = cleanedLineItems,
                    IntegratedData.jobTimes = cleanedJobTimes,
                    IntegratedData.appointments = cleanedAppointments,
                    technicianNames =
                      extractTechnicianNames cleanedOpportunities cleanedLineItems
                        cleanedJobTimes cleanedAppointments,
                    jobIds =
                      extractJobIds cleanedOpportunities cleanedLineItems
                        cleanedJobTimes cleanedAppointments\<rparr>)))))"

section \<open>The quantity of a line item row (fileParser.ts, line 93)\<close>

text \<open>
  A cell of a decoded sheet row: a native number, or a value of another type
  (\<open>UndefinedValue\<close> is a missing cell).
\<close>

datatype other_value = StringValue string | BooleanValue bool | UndefinedValue | NullValue

datatype cell = NumberCell real | OtherCell other_value

definition isDigit :: "char \<Rightarrow> bool" where
  "isDigit c = (CHR ''0'' \<le> c \<and> c \<le> CHR ''9'')"

definition digit_value :: "char \<Rightarrow> int" where
  "digit_value c = int (of_char c) - 48"

text \<open>
  \<open>parseInt(s, 10)\<close>: leading white space is skipped, one sign is read, and the longest
  run of decimal digits that follows is the value; with no digit the result is \<open>NaN\<close>
  (\<open>None\<close>).
\<close>

definition parseInt :: "string \<Rightarrow> int option" where
  "parseInt s =
     (let t = dropWhile isWhiteSpace s;
          sign = (case t of c # _ \<Rightarrow> if c = CHR ''-'' then - 1 else 1 | [] \<Rightarrow> 1);
          u = (case t of c # cs \<Rightarrow> if c = CHR ''-'' \<or> c = CHR ''+'' then cs else t | [] \<Rightarrow> t);
          z = takeWhile isDigit u
      in if z = [] then None
         else Some (sign * foldl (\<lambda>acc c. 10 * acc + digit_value c) 0 z))"

text \<open>\<open>String(v)\<close> for a value that is not a number.\<close>

fun String_of :: "other_value \<Rightarrow> string" where
  "String_of (StringValue s) = s"
| "String_of (BooleanValue b) = (if b then ''true'' else ''false'')"
| "String_of UndefinedValue = ''undefined''"
| "String_of NullValue = ''null''"

text \<open>
  \<open>typeof row.Quantity === 'number' ? row.Quantity : parseInt(String(row.Quantity), 10) || 1\<close>,
  the quantity that \<open>parseLineItemsFile\<close> stores; \<open>NaN\<close> and \<open>0\<close> are falsy.
\<close>

definition parseLineItemsFile_quantity :: "cell \<Rightarrow> real" where
  "parseLineItemsFile_quantity c =
     (case c of
        NumberCell n \<Rightarrow> n
      | OtherCell v \<Rightarrow>
          (case parseInt (String_of v) of
             None \<Rightarrow> 1
           | Some n \<Rightarrow> if n = 0 then 1 else real_of_int n))"

section \<open>Scalar parsers (dataIntegrator.ts, lines 993-1023)\<close>

definition digits_value :: "string \<Rightarrow> nat" where
  "digits_value ds = foldl (\<lambda>acc c. 10 * acc + nat (digit_value c)) 0 ds"

text \<open>
  The exponent part that \<open>parseFloat\<close> reads after the mantissa: \<open>e\<close> or \<open>E\<close>, one
  optional sign and at least one digit; anything else is not part of the number, and the
  exponent is 0.
\<close>

definition exponent_part :: "string \<Rightarrow> int" where
  "exponent_part r =
     (case r of
        [] \<Rightarrow> 0
      | c # r' \<Rightarrow>
          if c = CHR ''e'' \<or> c = CHR ''E'' then
            (let negative = (case r' of d # _ \<Rightarrow> d = CHR ''-'' | [] \<Rightarrow> False);
                 u = (case r' of d # ds \<Rightarrow> if d = CHR ''-'' \<or> d = CHR ''+'' then ds else r'
                              | [] \<Rightarrow> r');
                 z = takeWhile isDigit u
             in if z = [] then 0
                else if negative then - int (digits_value z) else int (digits_value z))
          else 0)"

definition scale10 :: "real \<Rightarrow> int \<Rightarrow> real" where
  "scale10 m e = (if 0 \<le> e then m * 10 ^ nat e else m / 10 ^ nat (- e))"

text \<open>
  \<open>parseFloat\<close>: leading white space is skipped, and the longest prefix of the rest that
  is a decimal literal (a sign, then \<open>Infinity\<close> or digits with an optional fraction and
  exponent) is the value; with no such prefix the result is \<open>NaN\<close>.
\<close>

definition parseFloat :: "string \<Rightarrow> number" where
  "parseFloat s =
     (let t = dropWhile isWhiteSpace s;
          negative = (case t of c # _ \<Rightarrow> c = CHR ''-'' | [] \<Rightarrow> False);
          u = (case t of c # cs \<Rightarrow> if c = CHR ''-'' \<or> c = CHR ''+'' then cs else t | [] \<Rightarrow> t)
      in if startsWith u ''Infinity'' then (if negative then NegInfinity else PosInfinity)
         else
           (let integral = takeWhile isDigit u;
                r1 = dropWhile isDigit u;
                has_point = (case r1 of c # _ \<Rightarrow> c = CHR ''.'' | [] \<Rightarrow> False);
                fraction = (if has_point then takeWhile isDigit (tl r1) else []);
                r2 = (if has_point then dropWhile isDigit (tl r1) else r1)
            in if integral = [] \<and> fraction = [] then NaN
               else
                 (let mantissa = real (digits_value integral)
                               + real (digits_value fraction) / 10 ^ length fraction;
                      v = scale10 mantissa (exponent_part r2)
                  in Num (if negative then - v else v))))"

text \<open>\<open>x || 0\<close> for a number \<open>x\<close>: \<open>NaN\<close> and \<open>0\<close> are falsy.\<close>

fun or_zero :: "number \<Rightarrow> number" where
  "or_zero NaN = Num 0"
| "or_zero (Num r) = (if r = 0 then Num 0 else Num r)"
| "or_zero PosInfinity = PosInfinity"
| "or_zero NegInfinity = NegInfinity"

definition parseCurrency :: "string option \<Rightarrow> number" where
  "parseCurrency currencyString =
     (case currencyString of
        None \<Rightarrow> Num 0
      | Some s \<Rightarrow>
          if \<not> truthy_string s then Num 0
          else (let cleaned = filter (\<lambda>c. c \<noteq> CHR ''$'' \<and> c \<noteq> CHR '','') s
                in or_zero (parseFloat cleaned)))"

definition parsePercentage :: "string option \<Rightarrow> number" where
  "parsePercentage percentageString =
     (case percentageString of
        None \<Rightarrow> Num 0
      | Some s \<Rightarrow>
          if \<not> truthy_string s then Num 0
          else (let cleaned = filter (\<lambda>c. c \<noteq> CHR ''%'' \<and> \<not> isWhiteSpace c) s
                in or_zero (parseFloat cleaned)))"

text \<open>
  A match of \<open>/(\d+)h\s*(\d+)m/\<close> that starts at the head of the string: the two groups
  of digits. Each of the three repetitions is followed by a character outside its class,
  so only the longest runs can match.
\<close>

definition match_here :: "string \<Rightarrow> (string \<times> string) option" where
  "match_here s =
     (let g1 = takeWhile isDigit s; r1 = dropWhile isDigit s
      in if g1 = [] then None
         else (case r1 of
                 [] \<Rightarrow> None
               | c # r2 \<Rightarrow>
                   if c \<noteq> CHR ''h'' then None
                   else (let r3 = dropWhile isWhiteSpace r2;
                             g2 = takeWhile isDigit r3; r4 = dropWhile isDigit r3
                         in if g2 = [] then None
                            else (case r4 of
                                    [] \<Rightarrow> None
                                  | d # _ \<Rightarrow> if d = CHR ''m'' then Some (g1, g2) else None))))"

text \<open>\<open>timeString.match(...)\<close>: the match at the leftmost position that has one.\<close>

fun regex_match :: "string \<Rightarrow> (string \<times> string) option" where
  "regex_match [] = None"
| "regex_match (c # cs) =
     (case match_here (c # cs) of Some m \<Rightarrow> Some m | None \<Rightarrow> regex_match cs)"

definition parseTimeToMinutes :: "string option \<Rightarrow> real" where
  "parseTimeToMinutes timeString =
     (case timeString of
        None \<Rightarrow> 0
      | Some s \<Rightarrow>
          if \<not> truthy_string s then 0
          else (case regex_match s of
                  Some (g1, g2) \<Rightarrow>
                    (let hours = digits_value g1; minutes = digits_value g2
                     in real (hours * 60 + minutes))
                | None \<Rightarrow> 0))"

section \<open>Notions of the specification\<close>

text \<open>
  The distinct members of a list in the order of their first occurrence: the head, then
  the first occurrences of the rest without the head.
\<close>

fun first_occurrences :: "'a list \<Rightarrow> 'a list" where
  "first_occurrences [] = []"
| "first_occurrences (x # xs) = x # filter (\<lambda>y. y \<noteq> x) (first_occurrences xs)"

text \<open>The arithmetic mean of a list of numbers, for a list that is not empty.\<close>

definition mean :: "real list \<Rightarrow> real" where
  "mean xs = sum_list xs / real (length xs)"

text \<open>
  The technician names met when the four collections are scanned in the sequence
  opportunities, line items, job times, appointments.
\<close>

definition technicians_in_scan_order ::
  "ProcessedOpportunity list \<Rightarrow> ProcessedLineItem list \<Rightarrow> ProcessedJobTime list
   \<Rightarrow> ProcessedAppointment list \<Rightarrow> string list" where
  "technicians_in_scan_order opps items jobs appts =
     map ProcessedOpportunity.technician opps @ map ProcessedLineItem.technician items
     @ map ProcessedJobTime.technician jobs @ map ProcessedAppointment.technician appts"

text \<open>
  \<open>normalizeTechnicianName\<close> as the specification words it: null or empty gives the
  sentinel; otherwise the name is trimmed, its runs of white space become single spaces,
  and the result is looked up in the alias table, an unmapped name passing unchanged.
\<close>

definition normalizeTechnicianName_spec :: "string option \<Rightarrow> string" where
  "normalizeTechnicianName_spec name =
     (case name of
        None \<Rightarrow> ''Unknown Technician''
      | Some s \<Rightarrow>
          if s = [] then ''Unknown Technician''
          else (case map_of nameMap (replace_whitespace_runs (trim s)) of
                  Some canonical \<Rightarrow> canonical
                | None \<Rightarrow> replace_whitespace_runs (trim s)))"

text \<open>
  A string in which every white space character is a space that is followed by a
  character that is not white space.
\<close>

fun single_spaced :: "string \<Rightarrow> bool" where
  "single_spaced [] = True"
| "single_spaced [c] = (\<not> isWhiteSpace c)"
| "single_spaced (c # d # cs) =
     ((if isWhiteSpace c then c = CHR '' '' \<and> \<not> isWhiteSpace d else True)
      \<and> single_spaced (d # cs))"

section \<open>The cleaning invariants as the specification words them\<close>

text \<open>
  The invariants table of the specification, one predicate per record type: the identity
  fields (job identifier, technician, the source's date field) are present and the numeric
  fields are in range. The date field of a processed record always holds a \<open>Date\<close> object,
  so it is present even when its time value is invalid.
\<close>

definition opportunity_invariants :: "ProcessedOpportunity \<Rightarrow> bool" where
  "opportunity_invariants r =
     (ProcessedOpportunity.jobId r \<noteq> [] \<and> ProcessedOpportunity.technician r \<noteq> []
      \<and> truthy_Date (date r) \<and> 0 \<le> ProcessedOpportunity.revenue r)"

definition lineItem_invariants :: "ProcessedLineItem \<Rightarrow> bool" where
  "lineItem_invariants r =
     (ProcessedLineItem.jobId r \<noteq> [] \<and> ProcessedLineItem.technician r \<noteq> []
      \<and> truthy_Date (invoiceDate r) \<and> 0 \<le> price r \<and> 0 < quantity r)"

definition jobTime_invariants :: "ProcessedJobTime \<Rightarrow> bool" where
  "jobTime_invariants r =
     (ProcessedJobTime.jobId r \<noteq> [] \<and> ProcessedJobTime.technician r \<noteq> []
      \<and> truthy_Date (firstAppointment r) \<and> 0 \<le> ProcessedJobTime.jobEfficiency r \<and> ProcessedJobTime.jobEfficiency r \<le> 100)"

definition appointment_invariants :: "ProcessedAppointment \<Rightarrow> bool" where
  "appointment_invariants r =
     (ProcessedAppointment.jobId r \<noteq> [] \<and> ProcessedAppointment.technician r \<noteq> []
      \<and> truthy_Date (scheduledFor r) \<and> 0 \<le> ProcessedAppointment.revenue r)"

section \<open>Sample records\<close>

definition sample_opportunity :: ProcessedOpportunity where
  "sample_opportunity =
     \<lparr>date = Date (Some 1000), ProcessedOpportunity.jobId = ''J-1'',
      ProcessedOpportunity.customer = ''Ann'', email = ''ann@example.com'', phone = ''555'',
      status = ''Won'', ProcessedOpportunity.technician = ''Jake Harter'',
      membershipOpportunity = True, membershipSold = True,
      ProcessedOpportunity.revenue = 1200\<rparr>"

definition sample_lineItem :: ProcessedLineItem where
  "sample_lineItem =
     \<lparr>invoiceDate = Date (Some 1000), ProcessedLineItem.customer = ''Ann'',
      ProcessedLineItem.jobId = ''J-1'', ProcessedLineItem.technician = ''Jake Harter'',
      category = ''Drain'', lineItem = ''Hydro Jetting Service'', quantity = 1, price = 450\<rparr>"

definition sample_jobTime :: ProcessedJobTime where
  "sample_jobTime =
     \<lparr>firstAppointment = Date (Some 1000), ProcessedJobTime.jobId = ''J-1'',
      jobStatus = ''Completed'', ProcessedJobTime.customer = ''Ann'',
      ProcessedJobTime.technician = ''Jake Harter'', opportunity = ''Won'', total = 1200,
      totalTime = 288, soldTime = 240, ProcessedJobTime.jobEfficiency = 50\<rparr>"

definition sample_appointment :: ProcessedAppointment where
  "sample_appointment =
     \<lparr>appointmentId = ''A-1'', scheduledFor = Date (Some 1000),
      ProcessedAppointment.jobId = ''J-1'', ProcessedAppointment.customer = ''Ann'',
      apptStatus = ''Completed'', ProcessedAppointment.technician = ''Jake Harter'',
      serviceCategory = ''Plumbing'', ProcessedAppointment.revenue = 300\<rparr>"

section \<open>Cleaning keeps exactly the valid records\<close>

lemma cleanOpportunitiesData_filter:
  "cleanOpportunitiesData xs = filter opportunity_invariants xs"
  unfolding cleanOpportunitiesData_def
  by (rule filter_cong) (auto simp: opportunity_invariants_def truthy_string_def)

lemma cleanLineItemsData_filter:
  "cleanLineItemsData xs = filter lineItem_invariants xs"
  unfolding cleanLineItemsData_def
  by (rule filter_cong) (auto simp: lineItem_invariants_def truthy_string_def)

lemma cleanJobTimesData_filter:
  "cleanJobTimesData xs = filter jobTime_invariants xs"
  unfolding cleanJobTimesData_def
  by (rule filter_cong) (auto simp: jobTime_invariants_def truthy_string_def)

lemma cleanAppointmentsData_filter:
  "cleanAppointmentsData xs = filter appointment_invariants xs"
  unfolding cleanAppointmentsData_def
  by (rule filter_cong) (auto simp: appointment_invariants_def truthy_string_def)

text \<open>
  Claim C2. Each cleaning function is the filter of its input by the invariants of its
  record type: a record is retained if and only if its job identifier, technician and
  date field are present and its numeric fields are in range, and the retained records
  keep their order. In particular a negative revenue or price, a quantity that is not
  positive and a job efficiency outside the interval from 0 to 100 exclude the record.
\<close>

theorem cleaning_retains_exactly_the_valid_records:
  "cleanOpportunitiesData opps = filter opportunity_invariants opps
   \<and> cleanLineItemsData items = filter lineItem_invariants items
   \<and> cleanJobTimesData jobs = filter jobTime_invariants jobs
   \<and> cleanAppointmentsData appts = filter appointment_invariants appts
   \<and> (\<forall>r. ProcessedOpportunity.revenue r < 0 \<longrightarrow> r \<notin> set (cleanOpportunitiesData opps))
   \<and> (\<forall>r. ProcessedAppointment.revenue r < 0 \<longrightarrow> r \<notin> set (cleanAppointmentsData appts))
   \<and> (\<forall>r. price r < 0 \<longrightarrow> r \<notin> set (cleanLineItemsData items))
   \<and> (\<forall>r. quantity r \<le> 0 \<longrightarrow> r \<notin> set (cleanLineItemsData items))
   \<and> (\<forall>r. ProcessedJobTime.jobEfficiency r < 0 \<or> 100 < ProcessedJobTime.jobEfficiency r \<longrightarrow> r \<notin> set (cleanJobTimesData jobs))"
proof -
  have neg_opp: "\<forall>r. ProcessedOpportunity.revenue r < 0 \<longrightarrow> r \<notin> set (cleanOpportunitiesData opps)"
    by (simp add: cleanOpportunitiesData_filter opportunity_invariants_def)
  have neg_appt: "\<forall>r. ProcessedAppointment.revenue r < 0 \<longrightarrow> r \<notin> set (cleanAppointmentsData appts)"
    by (simp add: cleanAppointmentsData_filter appointment_invariants_def)
  have neg_price: "\<forall>r. price r < 0 \<longrightarrow> r \<notin> set (cleanLineItemsData items)"
    by (simp add: cleanLineItemsData_filter lineItem_invariants_def)
  have bad_qty: "\<forall>r. quantity r \<le> 0 \<longrightarrow> r \<notin> set (cleanLineItemsData items)"
    by (simp add: cleanLineItemsData_filter lineItem_invariants_def)
  have bad_eff: "\<forall>r. ProcessedJobTime.jobEfficiency r < 0 \<or> 100 < ProcessedJobTime.jobEfficiency r \<longrightarrow> r \<notin> set (cleanJobTimesData jobs)"
    by (auto simp: cleanJobTimesData_filter jobTime_invariants_def)
  show ?thesis
    using neg_opp neg_appt neg_price bad_qty bad_eff
    by (simp only: cleanOpportunitiesData_filter cleanLineItemsData_filter
        cleanJobTimesData_filter cleanAppointmentsData_filter simp_thms)
qed

theorem cleaning_retains_exactly_the_valid_records_witness:
  "cleanOpportunitiesData
     [sample_opportunity, sample_opportunity\<lparr>ProcessedOpportunity.revenue := - 1\<rparr>,
      sample_opportunity\<lparr>ProcessedOpportunity.technician := []\<rparr>] = [sample_opportunity]
   \<and> cleanLineItemsData
     [sample_lineItem\<lparr>quantity := 0\<rparr>, sample_lineItem, sample_lineItem\<lparr>price := - 5\<rparr>,
      sample_lineItem\<lparr>ProcessedLineItem.jobId := []\<rparr>] = [sample_lineItem]
   \<and> cleanJobTimesData
     [sample_jobTime\<lparr>ProcessedJobTime.jobEfficiency := 101\<rparr>, sample_jobTime\<lparr>ProcessedJobTime.jobEfficiency := - 1\<rparr>,
      sample_jobTime\<lparr>ProcessedJobTime.jobEfficiency := 100\<rparr>, sample_jobTime\<lparr>ProcessedJobTime.jobEfficiency := 0\<rparr>]
       = [sample_jobTime\<lparr>ProcessedJobTime.jobEfficiency := 100\<rparr>, sample_jobTime\<lparr>ProcessedJobTime.jobEfficiency := 0\<rparr>]
   \<and> cleanAppointmentsData
     [sample_appointment\<lparr>ProcessedAppointment.revenue := - 300\<rparr>, sample_appointment]
       = [sample_appointment]"
  using cleaning_retains_exactly_the_valid_records
    [of "[sample_opportunity, sample_opportunity\<lparr>ProcessedOpportunity.revenue := - 1\<rparr>,
          sample_opportunity\<lparr>ProcessedOpportunity.technician := []\<rparr>]"
        "[sample_lineItem\<lparr>quantity := 0\<rparr>, sample_lineItem, sample_lineItem\<lparr>price := - 5\<rparr>,
          sample_lineItem\<lparr>ProcessedLineItem.jobId := []\<rparr>]"
        "[sample_jobTime\<lparr>ProcessedJobTime.jobEfficiency := 101\<rparr>, sample_jobTime\<lparr>ProcessedJobTime.jobEfficiency := - 1\<rparr>,
          sample_jobTime\<lparr>ProcessedJobTime.jobEfficiency := 100\<rparr>, sample_jobTime\<lparr>ProcessedJobTime.jobEfficiency := 0\<rparr>]"
        "[sample_appointment\<lparr>ProcessedAppointment.revenue := - 300\<rparr>, sample_appointment]"]
  by (simp add: opportunity_invariants_def lineItem_invariants_def jobTime_invariants_def
      appointment_invariants_def sample_opportunity_def sample_lineItem_def
      sample_jobTime_def sample_appointment_def)

section \<open>The records of a technician and week\<close>

lemma isDateInWeekRange_iff:
  "isDateInWeekRange d weekStart weekEnd \<longleftrightarrow>
     (\<exists>t s e. getTime d = Some t \<and> getTime weekStart = Some s \<and> getTime weekEnd = Some e
              \<and> s \<le> t \<and> t \<le> e)"
  by (auto simp: isDateInWeekRange_def date_ge_def date_le_def split: option.splits)

lemma techOpportunities_window:
  "techOpportunities tech opps weekStart weekEnd =
     filter (\<lambda>opp. ProcessedOpportunity.technician opp = tech
              \<and> (\<exists>t s e. getTime (date opp) = Some t \<and> getTime weekStart = Some s
                         \<and> getTime weekEnd = Some e \<and> s \<le> t \<and> t \<le> e)) opps"
  unfolding techOpportunities_def
  by (rule filter_cong) (simp_all add: isDateInWeekRange_iff)

lemma techAppointments_window:
  "techAppointments tech appts weekStart weekEnd =
     filter (\<lambda>appt. ProcessedAppointment.technician appt = tech
              \<and> (\<exists>t s e. getTime (scheduledFor appt) = Some t \<and> getTime weekStart = Some s
                         \<and> getTime weekEnd = Some e \<and> s \<le> t \<and> t \<le> e)) appts"
  unfolding techAppointments_def
  by (rule filter_cong) (simp_all add: isDateInWeekRange_iff)

section \<open>The KPI formulas\<close>

lemma foldl_plus_sum_list:
  "foldl (\<lambda>acc x. acc + f x) a xs = (a::real) + sum_list (map f xs)"
  by (induction xs arbitrary: a) auto

lemma js_div_pos: "0 < n \<Longrightarrow> js_div a (real n) = Num (a / real n)"
  by (simp add: js_div_def)

lemma calculateAverageTicketValue_eq:
  "calculateAverageTicketValue fo fa =
     (if length (filter (\<lambda>opp. status opp = ''Won'') fo)
           + length (filter (\<lambda>appt. apptStatus appt = ''Completed'') fa) = 0
      then Num 0
      else Num ((sum_list (map ProcessedOpportunity.revenue fo)
                  + sum_list (map ProcessedAppointment.revenue fa))
                / real (length (filter (\<lambda>opp. status opp = ''Won'') fo)
                        + length (filter (\<lambda>appt. apptStatus appt = ''Completed'') fa))))"
proof -
  define n where "n = length (filter (\<lambda>opp. status opp = ''Won'') fo)
           + length (filter (\<lambda>appt. apptStatus appt = ''Completed'') fa)"
  have "calculateAverageTicketValue fo fa =
     (if n = 0 then Num 0
      else js_div (foldl (\<lambda>sum opp. sum + ProcessedOpportunity.revenue opp) 0 fo
                   + foldl (\<lambda>sum appt. sum + ProcessedAppointment.revenue appt) 0 fa) (real n))"
    unfolding calculateAverageTicketValue_def n_def Let_def ..
  also have "\<dots> = (if n = 0 then Num 0
      else Num ((sum_list (map ProcessedOpportunity.revenue fo)
                  + sum_list (map ProcessedAppointment.revenue fa)) / real n))"
    by (cases "n = 0") (simp_all add: js_div_pos foldl_plus_sum_list)
  finally show ?thesis unfolding n_def .
qed

lemma calculateJobEfficiency_eq:
  "calculateJobEfficiency jobs =
     (let positive = filter (\<lambda>e. 0 < e) (map ProcessedJobTime.jobEfficiency jobs)
      in if positive = [] then Num 0 else Num (mean positive))"
proof -
  define v where "v = map (\<lambda>job. ProcessedJobTime.jobEfficiency job)
              (filter (\<lambda>job. ProcessedJobTime.jobEfficiency job > 0) jobs)"
  have v: "v = filter (\<lambda>e. 0 < e) (map ProcessedJobTime.jobEfficiency jobs)"
    unfolding v_def by (induction jobs) auto
  have "calculateJobEfficiency jobs =
      (if length v = 0 then Num 0
       else js_div (foldl (\<lambda>total efficiency. total + efficiency) 0 v) (real (length v)))"
    unfolding calculateJobEfficiency_def v_def Let_def ..
  also have "\<dots> = (if v = [] then Num 0 else Num (mean v))"
    by (cases "v = []") (simp_all add: js_div_pos foldl_plus_sum_list mean_def)
  finally show ?thesis unfolding v Let_def .
qed


lemma calculateJobCloseRate_eq:
  "calculateJobCloseRate fo =
     (if fo = [] then Num 0
      else Num (real (length (filter (\<lambda>opp. status opp = ''Won'') fo)) / real (length fo) * 100))"
  unfolding calculateJobCloseRate_def Let_def
  by (cases "fo = []") (simp_all add: js_div_pos)

lemma calculateMembershipWinRate_eq:
  "calculateMembershipWinRate fo =
     (let m = filter (\<lambda>opp. membershipOpportunity opp) fo
      in if m = [] then Num 0
         else Num (real (length (filter (\<lambda>opp. membershipSold opp) m)) / real (length m) * 100))"
  unfolding calculateMembershipWinRate_def Let_def
  by (cases "filter (\<lambda>opp. membershipOpportunity opp) fo = []") (simp_all add: js_div_pos)

lemma calculateWeeklyRevenue_eq:
  "calculateWeeklyRevenue fo fa =
     Num (sum_list (map ProcessedOpportunity.revenue fo)
          + sum_list (map ProcessedAppointment.revenue fa))"
  unfolding calculateWeeklyRevenue_def Let_def
  by (simp add: foldl_plus_sum_list)

lemma ratio_percent_bounds:
  assumes "a \<le> n" "0 < n"
  shows "0 \<le> real a / real n * 100 \<and> real a / real n * 100 \<le> 100"
proof -
  have n: "0 < real n" using assms(2) by simp
  have "real a \<le> real n" using assms(1) by simp
  then have "real a * 100 \<le> 100 * real n" by simp
  then have "real a * 100 / real n \<le> 100"
    using n by (simp add: pos_divide_le_eq)
  then show ?thesis by simp
qed

lemma sum_list_upper:
  "\<forall>x \<in> set xs. x \<le> (c::real) \<Longrightarrow> sum_list xs \<le> c * real (length xs)"
  by (induction xs) (auto simp: algebra_simps)

lemma mean_bounds:
  assumes "xs \<noteq> []" "\<forall>x \<in> set xs. 0 \<le> x \<and> x \<le> (100::real)"
  shows "0 \<le> mean xs \<and> mean xs \<le> 100"
proof -
  have n: "0 < real (length xs)" using assms(1) by simp
  have "0 \<le> sum_list xs" using assms(2) by (simp add: sum_list_nonneg)
  moreover have "sum_list xs \<le> 100 * real (length xs)"
    using assms(2) by (simp add: sum_list_upper)
  ultimately show ?thesis
    unfolding mean_def using n by (simp add: pos_divide_le_eq)
qed

text \<open>
  Claim C1. For every technician and week window, the average ticket value is the sum of
  the revenues of the technician's opportunities and appointments in the window, divided
  by the number of those opportunities with status Won plus the number of those
  appointments with status Completed; when that number is 0 the value is the number 0,
  not \<open>NaN\<close>. The records of the technician in the window are written out: those of the
  input collections whose technician is the given one and whose date (the date of an
  opportunity, the scheduled time of an appointment) has a time value between those of the
  start and the end of the week, both included.
\<close>

theorem averageTicketValue_formula:
  "averageTicketValue (calculateTechnicianKPIs tech opps items jobs appts weekStart weekEnd) =
     (let fo = filter (\<lambda>opp. ProcessedOpportunity.technician opp = tech
                   \<and> (\<exists>t s e. getTime (date opp) = Some t \<and> getTime weekStart = Some s
                              \<and> getTime weekEnd = Some e \<and> s \<le> t \<and> t \<le> e)) opps;
          fa = filter (\<lambda>appt. ProcessedAppointment.technician appt = tech
                   \<and> (\<exists>t s e. getTime (scheduledFor appt) = Some t \<and> getTime weekStart = Some s
                              \<and> getTime weekEnd = Some e \<and> s \<le> t \<and> t \<le> e)) appts;
          completed = length (filter (\<lambda>opp. status opp = ''Won'') fo)
                    + length (filter (\<lambda>appt. apptStatus appt = ''Completed'') fa)
      in if completed = 0 then Num 0
         else Num ((sum_list (map ProcessedOpportunity.revenue fo)
                     + sum_list (map ProcessedAppointment.revenue fa)) / real completed))"
proof -
  have "averageTicketValue
          (calculateTechnicianKPIs tech opps items jobs appts weekStart weekEnd) =
        calculateAverageTicketValue (techOpportunities tech opps weekStart weekEnd)
          (techAppointments tech appts weekStart weekEnd)"
    by (simp add: calculateTechnicianKPIs_def)
  then show ?thesis
    unfolding calculateAverageTicketValue_eq techOpportunities_window techAppointments_window
      Let_def .
qed

theorem averageTicketValue_formula_witness:
  "averageTicketValue
     (calculateTechnicianKPIs ''Jake Harter''
        [sample_opportunity,
         sample_opportunity\<lparr>ProcessedOpportunity.technician := ''Colin Myers'',
                            ProcessedOpportunity.revenue := 999\<rparr>,
         sample_opportunity\<lparr>date := Date (Some 2001), ProcessedOpportunity.revenue := 5000\<rparr>,
         sample_opportunity\<lparr>date := Date None, ProcessedOpportunity.revenue := 70\<rparr>]
        [] []
        [sample_appointment,
         sample_appointment\<lparr>ProcessedAppointment.technician := ''Colin Myers''\<rparr>,
         sample_appointment\<lparr>scheduledFor := Date (Some (- 1)),
                            ProcessedAppointment.revenue := 40\<rparr>]
        (Date (Some 0)) (Date (Some 2000))) = Num 750
   \<and> averageTicketValue
     (calculateTechnicianKPIs ''Jake Harter''
        [sample_opportunity\<lparr>status := ''Lost''\<rparr>,
         sample_opportunity\<lparr>ProcessedOpportunity.technician := ''Colin Myers''\<rparr>,
         sample_opportunity\<lparr>date := Date (Some 2001)\<rparr>]
        [] []
        [sample_appointment\<lparr>ProcessedAppointment.technician := ''Colin Myers''\<rparr>]
        (Date (Some 0)) (Date (Some 2000))) = Num 0"
  using averageTicketValue_formula
    [of "''Jake Harter''"
        "[sample_opportunity,
          sample_opportunity\<lparr>ProcessedOpportunity.technician := ''Colin Myers'',
                             ProcessedOpportunity.revenue := 999\<rparr>,
          sample_opportunity\<lparr>date := Date (Some 2001), ProcessedOpportunity.revenue := 5000\<rparr>,
          sample_opportunity\<lparr>date := Date None, ProcessedOpportunity.revenue := 70\<rparr>]"
        "[]" "[]"
        "[sample_appointment,
          sample_appointment\<lparr>ProcessedAppointment.technician := ''Colin Myers''\<rparr>,
          sample_appointment\<lparr>scheduledFor := Date (Some (- 1)),
                             ProcessedAppointment.revenue := 40\<rparr>]"
        "Date (Some 0)" "Date (Some 2000)"]
    averageTicketValue_formula
    [of "''Jake Harter''"
        "[sample_opportunity\<lparr>status := ''Lost''\<rparr>,
          sample_opportunity\<lparr>ProcessedOpportunity.technician := ''Colin Myers''\<rparr>,
          sample_opportunity\<lparr>date := Date (Some 2001)\<rparr>]"
        "[]" "[]"
        "[sample_appointment\<lparr>ProcessedAppointment.technician := ''Colin Myers''\<rparr>]"
        "Date (Some 0)" "Date (Some 2000)"]
  by (simp add: sample_opportunity_def sample_appointment_def)

text \<open>
  Claim C5. The job efficiency KPI is the arithmetic mean of the efficiencies of the
  technician's job-time records in the window that are greater than 0, and the number 0
  when there is none; a record with efficiency 0 counts neither in the sum nor in the
  number of records, so the efficiencies 0, 50, 100 give 75.
\<close>

theorem jobEfficiency_is_mean_of_positive_efficiencies:
  "TechnicianKPIs.jobEfficiency
       (calculateTechnicianKPIs tech opps items jobs appts weekStart weekEnd) =
     (let positive = filter (\<lambda>e. 0 < e)
            (map ProcessedJobTime.jobEfficiency (techJobTimes tech jobs weekStart weekEnd))
      in if positive = [] then Num 0 else Num (mean positive))
   \<and> (map ProcessedJobTime.jobEfficiency (techJobTimes tech jobs weekStart weekEnd) = [0, 50, 100]
        \<longrightarrow> TechnicianKPIs.jobEfficiency
              (calculateTechnicianKPIs tech opps items jobs appts weekStart weekEnd) = Num 75)"
proof -
  have kpi: "TechnicianKPIs.jobEfficiency
       (calculateTechnicianKPIs tech opps items jobs appts weekStart weekEnd) =
     (let positive = filter (\<lambda>e. 0 < e)
            (map ProcessedJobTime.jobEfficiency (techJobTimes tech jobs weekStart weekEnd))
      in if positive = [] then Num 0 else Num (mean positive))"
    by (simp add: calculateTechnicianKPIs_def calculateJobEfficiency_eq)
  have "map ProcessedJobTime.jobEfficiency (techJobTimes tech jobs weekStart weekEnd) = [0, 50, 100]
        \<longrightarrow> TechnicianKPIs.jobEfficiency
              (calculateTechnicianKPIs tech opps items jobs appts weekStart weekEnd) = Num 75"
    unfolding kpi by (simp add: mean_def)
  with kpi show ?thesis by (rule conjI)
qed

theorem jobEfficiency_is_mean_of_positive_efficiencies_witness:
  "TechnicianKPIs.jobEfficiency
     (calculateTechnicianKPIs ''Jake Harter'' [] []
        [sample_jobTime\<lparr>ProcessedJobTime.jobEfficiency := 0\<rparr>,
         sample_jobTime\<lparr>ProcessedJobTime.technician := ''Colin Myers''\<rparr>,
         sample_jobTime,
         sample_jobTime\<lparr>ProcessedJobTime.jobEfficiency := 100\<rparr>,
         sample_jobTime\<lparr>firstAppointment := Date (Some 2001)\<rparr>] []
        (Date (Some 0)) (Date (Some 2000))) = Num 75"
  using jobEfficiency_is_mean_of_positive_efficiencies
    [of "''Jake Harter''" "[]" "[]"
        "[sample_jobTime\<lparr>ProcessedJobTime.jobEfficiency := 0\<rparr>,
          sample_jobTime\<lparr>ProcessedJobTime.technician := ''Colin Myers''\<rparr>,
          sample_jobTime,
          sample_jobTime\<lparr>ProcessedJobTime.jobEfficiency := 100\<rparr>,
          sample_jobTime\<lparr>firstAppointment := Date (Some 2001)\<rparr>]" "[]"
        "Date (Some 0)" "Date (Some 2000)"]
  by (simp add: techJobTimes_def isDateInWeekRange_def date_ge_def date_le_def
      sample_jobTime_def mean_def)

text \<open>
  Claim C10. When the input collections satisfy the invariants of cleaned data (revenues
  and prices not negative, quantities positive, job efficiencies between 0 and 100), every
  numeric field of the KPIs of a technician and week is a finite number that is not
  negative, and the job close rate, the membership win rate and the job efficiency are at
  most 100.
\<close>

theorem kpis_within_bounds:
  assumes "\<forall>opp \<in> set opps. 0 \<le> ProcessedOpportunity.revenue opp"
    and "\<forall>appt \<in> set appts. 0 \<le> ProcessedAppointment.revenue appt"
    and "\<forall>item \<in> set items. 0 \<le> price item \<and> 0 < quantity item"
    and "\<forall>job \<in> set jobs. 0 \<le> ProcessedJobTime.jobEfficiency job
                           \<and> ProcessedJobTime.jobEfficiency job \<le> 100"
  shows "(\<exists>r. averageTicketValue (calculateTechnicianKPIs tech opps items jobs appts weekStart weekEnd) = Num r \<and> 0 \<le> r)
    \<and> (\<exists>r. jobCloseRate (calculateTechnicianKPIs tech opps items jobs appts weekStart weekEnd) = Num r \<and> 0 \<le> r \<and> r \<le> 100)
    \<and> (\<exists>r. weeklyRevenue (calculateTechnicianKPIs tech opps items jobs appts weekStart weekEnd) = Num r \<and> 0 \<le> r)
    \<and> (\<exists>r. TechnicianKPIs.jobEfficiency (calculateTechnicianKPIs tech opps items jobs appts weekStart weekEnd) = Num r \<and> 0 \<le> r \<and> r \<le> 100)
    \<and> (\<exists>r. membershipWinRate (calculateTechnicianKPIs tech opps items jobs appts weekStart weekEnd) = Num r \<and> 0 \<le> r \<and> r \<le> 100)
    \<and> (\<exists>r. hydroJettingJobsSold (calculateTechnicianKPIs tech opps items jobs appts weekStart weekEnd) = Num r \<and> 0 \<le> r)
    \<and> (\<exists>r. descalingJobsSold (calculateTechnicianKPIs tech opps items jobs appts weekStart weekEnd) = Num r \<and> 0 \<le> r)
    \<and> (\<exists>r. waterHeaterJobsSold (calculateTechnicianKPIs tech opps items jobs appts weekStart weekEnd) = Num r \<and> 0 \<le> r)"
proof -
  define fo where "fo = techOpportunities tech opps weekStart weekEnd"
  define fa where "fa = techAppointments tech appts weekStart weekEnd"
  define fj where "fj = techJobTimes tech jobs weekStart weekEnd"
  have fo: "\<forall>opp \<in> set fo. 0 \<le> ProcessedOpportunity.revenue opp"
    using assms(1) by (simp add: fo_def techOpportunities_def)
  have fa: "\<forall>appt \<in> set fa. 0 \<le> ProcessedAppointment.revenue appt"
    using assms(2) by (simp add: fa_def techAppointments_def)
  have fj: "\<forall>job \<in> set fj. 0 \<le> ProcessedJobTime.jobEfficiency job
                           \<and> ProcessedJobTime.jobEfficiency job \<le> 100"
    using assms(4) by (simp add: fj_def techJobTimes_def)
  have so: "0 \<le> sum_list (map ProcessedOpportunity.revenue fo)"
    using fo by (intro sum_list_nonneg) auto
  have sa: "0 \<le> sum_list (map ProcessedAppointment.revenue fa)"
    using fa by (intro sum_list_nonneg) auto
  have atv: "\<exists>r. calculateAverageTicketValue fo fa = Num r \<and> 0 \<le> r"
    using so sa by (simp add: calculateAverageTicketValue_eq)
  have jcr: "\<exists>r. calculateJobCloseRate fo = Num r \<and> 0 \<le> r \<and> r \<le> 100"
  proof (cases "fo = []")
    case True
    then show ?thesis by (simp add: calculateJobCloseRate_eq)
  next
    case False
    then have "0 < length fo" by simp
    from ratio_percent_bounds [OF length_filter_le this] False
    show ?thesis by (simp add: calculateJobCloseRate_eq)
  qed
  have wr: "\<exists>r. calculateWeeklyRevenue fo fa = Num r \<and> 0 \<le> r"
    using so sa by (simp add: calculateWeeklyRevenue_eq)
  have je: "\<exists>r. calculateJobEfficiency fj = Num r \<and> 0 \<le> r \<and> r \<le> 100"
  proof (cases "filter (\<lambda>e. 0 < e) (map ProcessedJobTime.jobEfficiency fj) = []")
    case True
    then show ?thesis by (simp add: calculateJobEfficiency_eq)
  next
    case False
    have "\<forall>x \<in> set (filter (\<lambda>e. 0 < e) (map ProcessedJobTime.jobEfficiency fj)). 0 \<le> x \<and> x \<le> 100"
      using fj by auto
    from mean_bounds [OF False this] False
    show ?thesis by (simp add: calculateJobEfficiency_eq)
  qed
  have mwr: "\<exists>r. calculateMembershipWinRate fo = Num r \<and> 0 \<le> r \<and> r \<le> 100"
  proof (cases "filter (\<lambda>opp. membershipOpportunity opp) fo = []")
    case True
    then show ?thesis by (simp add: calculateMembershipWinRate_eq)
  next
    case False
    then have "0 < length (filter (\<lambda>opp. membershipOpportunity opp) fo)" by simp
    from ratio_percent_bounds [OF length_filter_le this] False
    show ?thesis by (simp add: calculateMembershipWinRate_eq Let_def)
  qed
  show ?thesis
    using atv jcr wr je mwr
    unfolding fo_def fa_def fj_def
    by (simp add: calculateTechnicianKPIs_def calculateHydroJettingJobsSold_def
        calculateDescalingJobsSold_def calculateWaterHeaterJobsSold_def)
qed

theorem kpis_within_bounds_witness:
  "(\<exists>r. averageTicketValue
          (calculateTechnicianKPIs ''Jake Harter'' [sample_opportunity] [sample_lineItem]
             [sample_jobTime] [sample_appointment] (Date (Some 0)) (Date (Some 2000))) = Num r
        \<and> 0 \<le> r)
   \<and> (\<exists>r. jobCloseRate
          (calculateTechnicianKPIs ''Jake Harter'' [sample_opportunity] [sample_lineItem]
             [sample_jobTime] [sample_appointment] (Date (Some 0)) (Date (Some 2000))) = Num r
        \<and> 0 \<le> r \<and> r \<le> 100)
   \<and> (\<exists>r. TechnicianKPIs.jobEfficiency
          (calculateTechnicianKPIs ''Jake Harter'' [sample_opportunity] [sample_lineItem]
             [sample_jobTime] [sample_appointment] (Date (Some 0)) (Date (Some 2000))) = Num r
        \<and> 0 \<le> r \<and> r \<le> 100)
   \<and> (\<exists>r. membershipWinRate
          (calculateTechnicianKPIs ''Jake Harter'' [sample_opportunity] [sample_lineItem]
             [sample_jobTime] [sample_appointment] (Date (Some 0)) (Date (Some 2000))) = Num r
        \<and> 0 \<le> r \<and> r \<le> 100)"
proof -
  have h1: "\<forall>opp \<in> set [sample_opportunity]. 0 \<le> ProcessedOpportunity.revenue opp"
    by (simp add: sample_opportunity_def)
  have h2: "\<forall>appt \<in> set [sample_appointment]. 0 \<le> ProcessedAppointment.revenue appt"
    by (simp add: sample_appointment_def)
  have h3: "\<forall>item \<in> set [sample_lineItem]. 0 \<le> price item \<and> 0 < quantity item"
    by (simp add: sample_lineItem_def)
  have h4: "\<forall>job \<in> set [sample_jobTime]. 0 \<le> ProcessedJobTime.jobEfficiency job
                                     \<and> ProcessedJobTime.jobEfficiency job \<le> 100"
    by (simp add: sample_jobTime_def)
  from kpis_within_bounds [OF h1 h2 h3 h4, of "''Jake Harter''" "Date (Some 0)" "Date (Some 2000)"]
  show ?thesis by blast
qed

section \<open>The week window\<close>

text \<open>
  Claim C3. For each of the four collections the records that the KPI engine keeps for a
  technician are those of that technician whose primary date lies in the closed interval
  from the start to the end of the week, compared as time values: a date equal to the end
  of the week is inside, as is one equal to its start, and a date after the end (one day
  later, say) or before the start is outside.
\<close>

theorem week_filter_is_closed_interval:
  "(opp \<in> set (techOpportunities tech opps weekStart weekEnd) \<longleftrightarrow>
      opp \<in> set opps \<and> ProcessedOpportunity.technician opp = tech
      \<and> (\<exists>t s e. getTime (date opp) = Some t \<and> getTime weekStart = Some s
                 \<and> getTime weekEnd = Some e \<and> s \<le> t \<and> t \<le> e))
   \<and> (item \<in> set (techLineItems tech items weekStart weekEnd) \<longleftrightarrow>
      item \<in> set items \<and> ProcessedLineItem.technician item = tech
      \<and> (\<exists>t s e. getTime (invoiceDate item) = Some t \<and> getTime weekStart = Some s
                 \<and> getTime weekEnd = Some e \<and> s \<le> t \<and> t \<le> e))
   \<and> (job \<in> set (techJobTimes tech jobs weekStart weekEnd) \<longleftrightarrow>
      job \<in> set jobs \<and> ProcessedJobTime.technician job = tech
      \<and> (\<exists>t s e. getTime (firstAppointment job) = Some t \<and> getTime weekStart = Some s
                 \<and> getTime weekEnd = Some e \<and> s \<le> t \<and> t \<le> e))
   \<and> (appt \<in> set (techAppointments tech appts weekStart weekEnd) \<longleftrightarrow>
      appt \<in> set appts \<and> ProcessedAppointment.technician appt = tech
      \<and> (\<exists>t s e. getTime (scheduledFor appt) = Some t \<and> getTime weekStart = Some s
                 \<and> getTime weekEnd = Some e \<and> s \<le> t \<and> t \<le> e))
   \<and> (getTime weekStart = Some s \<and> getTime weekEnd = Some e \<and> s \<le> e \<longrightarrow>
        isDateInWeekRange (Date (Some e)) weekStart weekEnd
        \<and> isDateInWeekRange (Date (Some s)) weekStart weekEnd)
   \<and> (getTime weekEnd = Some e \<and> e < t \<longrightarrow> \<not> isDateInWeekRange (Date (Some t)) weekStart weekEnd)
   \<and> (getTime weekStart = Some s \<and> t < s \<longrightarrow> \<not> isDateInWeekRange (Date (Some t)) weekStart weekEnd)"
proof -
  have o: "opp \<in> set (techOpportunities tech opps weekStart weekEnd) \<longleftrightarrow>
      opp \<in> set opps \<and> ProcessedOpportunity.technician opp = tech
      \<and> (\<exists>t s e. getTime (date opp) = Some t \<and> getTime weekStart = Some s
                 \<and> getTime weekEnd = Some e \<and> s \<le> t \<and> t \<le> e)"
    by (simp add: techOpportunities_def isDateInWeekRange_iff)
  have i: "item \<in> set (techLineItems tech items weekStart weekEnd) \<longleftrightarrow>
      item \<in> set items \<and> ProcessedLineItem.technician item = tech
      \<and> (\<exists>t s e. getTime (invoiceDate item) = Some t \<and> getTime weekStart = Some s
                 \<and> getTime weekEnd = Some e \<and> s \<le> t \<and> t \<le> e)"
    by (simp add: techLineItems_def isDateInWeekRange_iff)
  have j: "job \<in> set (techJobTimes tech jobs weekStart weekEnd) \<longleftrightarrow>
      job \<in> set jobs \<and> ProcessedJobTime.technician job = tech
      \<and> (\<exists>t s e. getTime (firstAppointment job) = Some t \<and> getTime weekStart = Some s
                 \<and> getTime weekEnd = Some e \<and> s \<le> t \<and> t \<le> e)"
    by (simp add: techJobTimes_def isDateInWeekRange_iff)
  have a: "appt \<in> set (techAppointments tech appts weekStart weekEnd) \<longleftrightarrow>
      appt \<in> set appts \<and> ProcessedAppointment.technician appt = tech
      \<and> (\<exists>t s e. getTime (scheduledFor appt) = Some t \<and> getTime weekStart = Some s
                 \<and> getTime weekEnd = Some e \<and> s \<le> t \<and> t \<le> e)"
    by (simp add: techAppointments_def isDateInWeekRange_iff)
  have b: "getTime weekStart = Some s \<and> getTime weekEnd = Some e \<and> s \<le> e \<longrightarrow>
        isDateInWeekRange (Date (Some e)) weekStart weekEnd
        \<and> isDateInWeekRange (Date (Some s)) weekStart weekEnd"
    by (simp add: isDateInWeekRange_iff)
  have c: "getTime weekEnd = Some e \<and> e < t \<longrightarrow> \<not> isDateInWeekRange (Date (Some t)) weekStart weekEnd"
    by (simp add: isDateInWeekRange_iff)
  have d: "getTime weekStart = Some s \<and> t < s \<longrightarrow> \<not> isDateInWeekRange (Date (Some t)) weekStart weekEnd"
    by (simp add: isDateInWeekRange_iff)
  from o i j a b c d show ?thesis by (intro conjI)
qed

theorem week_filter_is_closed_interval_witness:
  "techOpportunities ''Jake Harter''
     [sample_opportunity\<lparr>date := Date (Some 604800000)\<rparr>,
      sample_opportunity\<lparr>date := Date (Some (604800000 + 86400000))\<rparr>,
      sample_opportunity\<lparr>date := Date (Some 0)\<rparr>,
      sample_opportunity\<lparr>date := Date (Some (- 1))\<rparr>]
     (Date (Some 0)) (Date (Some 604800000))
   = [sample_opportunity\<lparr>date := Date (Some 604800000)\<rparr>,
      sample_opportunity\<lparr>date := Date (Some 0)\<rparr>]
   \<and> isDateInWeekRange (Date (Some 604800000)) (Date (Some 0)) (Date (Some 604800000))
   \<and> isDateInWeekRange (Date (Some 0)) (Date (Some 0)) (Date (Some 604800000))
   \<and> \<not> isDateInWeekRange (Date (Some (604800000 + 86400000))) (Date (Some 0))
         (Date (Some 604800000))"
proof -
  have list: "techOpportunities ''Jake Harter''
     [sample_opportunity\<lparr>date := Date (Some 604800000)\<rparr>,
      sample_opportunity\<lparr>date := Date (Some (604800000 + 86400000))\<rparr>,
      sample_opportunity\<lparr>date := Date (Some 0)\<rparr>,
      sample_opportunity\<lparr>date := Date (Some (- 1))\<rparr>]
     (Date (Some 0)) (Date (Some 604800000))
   = [sample_opportunity\<lparr>date := Date (Some 604800000)\<rparr>,
      sample_opportunity\<lparr>date := Date (Some 0)\<rparr>]"
    by (simp add: techOpportunities_def isDateInWeekRange_def date_ge_def date_le_def
        sample_opportunity_def)
  from week_filter_is_closed_interval
    [of _ _ _ "Date (Some 0)" "Date (Some 604800000)" _ _ _ _ _ _ 0 604800000
        "604800000 + 86400000"]
  have "isDateInWeekRange (Date (Some 604800000)) (Date (Some 0)) (Date (Some 604800000))
   \<and> isDateInWeekRange (Date (Some 0)) (Date (Some 0)) (Date (Some 604800000))
   \<and> \<not> isDateInWeekRange (Date (Some (604800000 + 86400000))) (Date (Some 0))
         (Date (Some 604800000))"
    by simp
  with list show ?thesis by (rule conjI)
qed

section \<open>The order of the technicians\<close>

lemma set_first_occurrences [simp]: "set (first_occurrences xs) = set xs"
  by (induction xs) auto

lemma distinct_first_occurrences [simp]: "distinct (first_occurrences xs)"
  by (induction xs) auto

lemma first_occurrences_append:
  "first_occurrences (xs @ ys) =
     first_occurrences xs @ filter (\<lambda>y. y \<notin> set xs) (first_occurrences ys)"
proof (induction xs)
  case Nil
  show ?case by simp
next
  case (Cons x xs)
  have "filter (\<lambda>y. y \<noteq> x) (filter (\<lambda>y. y \<notin> set xs) (first_occurrences ys))
      = filter (\<lambda>y. y \<notin> set (x # xs)) (first_occurrences ys)"
    by (auto intro: filter_cong)
  with Cons show ?case by simp
qed

lemma foldl_Set_add:
  "foldl (\<lambda>s r. Set_add s (f r)) acc rs =
     acc @ filter (\<lambda>y. y \<notin> set acc) (first_occurrences (map f rs))"
proof (induction rs arbitrary: acc)
  case Nil
  show ?case by simp
next
  case (Cons r rs)
  show ?case
  proof (cases "f r \<in> set acc")
    case True
    have "filter (\<lambda>y. y \<notin> set acc) (filter (\<lambda>y. y \<noteq> f r) (first_occurrences (map f rs)))
        = filter (\<lambda>y. y \<notin> set acc) (first_occurrences (map f rs))"
      using True by (auto intro: filter_cong)
    with True Cons [of acc] show ?thesis by (simp add: Set_add_def)
  next
    case False
    have "filter (\<lambda>y. y \<notin> set (acc @ [f r])) (first_occurrences (map f rs))
        = filter (\<lambda>y. y \<notin> set acc) (filter (\<lambda>y. y \<noteq> f r) (first_occurrences (map f rs)))"
      by (auto intro: filter_cong)
    with False Cons [of "acc @ [f r]"] show ?thesis by (simp add: Set_add_def)
  qed
qed

lemma foldl_Set_add_first_occurrences:
  "foldl (\<lambda>s r. Set_add s (f r)) (first_occurrences xs) rs = first_occurrences (xs @ map f rs)"
  by (simp add: foldl_Set_add first_occurrences_append)

lemma takeWhile_filter_commute:
  "(\<And>z. \<not> Q z \<Longrightarrow> P z) \<Longrightarrow> takeWhile P (filter Q ys) = filter Q (takeWhile P ys)"
  by (induction ys) auto

lemma first_occurrences_before:
  "set (takeWhile (\<lambda>z. z \<noteq> b) (first_occurrences xs)) = set (takeWhile (\<lambda>z. z \<noteq> b) xs)"
proof (induction xs)
  case Nil
  show ?case by simp
next
  case (Cons x xs)
  show ?case
  proof (cases "x = b")
    case True
    then show ?thesis by simp
  next
    case False
    then have "takeWhile (\<lambda>z. z \<noteq> b) (filter (\<lambda>y. y \<noteq> x) (first_occurrences xs))
        = filter (\<lambda>y. y \<noteq> x) (takeWhile (\<lambda>z. z \<noteq> b) (first_occurrences xs))"
      by (intro takeWhile_filter_commute) auto
    with False Cons show ?thesis by auto
  qed
qed

lemma technician_set_scan:
  "foldl (\<lambda>s appt. Set_add s (ProcessedAppointment.technician appt))
     (foldl (\<lambda>s job. Set_add s (ProcessedJobTime.technician job))
        (foldl (\<lambda>s item. Set_add s (ProcessedLineItem.technician item))
           (foldl (\<lambda>s opp. Set_add s (ProcessedOpportunity.technician opp)) [] opps)
           items)
        jobs)
     appts
   = first_occurrences (technicians_in_scan_order opps items jobs appts)"
proof -
  have "foldl (\<lambda>s opp. Set_add s (ProcessedOpportunity.technician opp)) [] opps
      = first_occurrences ([] @ map ProcessedOpportunity.technician opps)"
    using foldl_Set_add_first_occurrences [of ProcessedOpportunity.technician "[]" opps]
    by simp
  then show ?thesis
    by (simp add: foldl_Set_add_first_occurrences technicians_in_scan_order_def)
qed

lemma calculateAllTechnicianKPIs_eq:
  "calculateAllTechnicianKPIs opps items jobs appts weekStart weekEnd =
     map (\<lambda>tech. calculateTechnicianKPIs tech opps items jobs appts weekStart weekEnd)
       (first_occurrences (technicians_in_scan_order opps items jobs appts))"
  unfolding calculateAllTechnicianKPIs_def Let_def technician_set_scan ..

lemma calculateAllTechnicianKPIs_names:
  "map TechnicianKPIs.technician
       (calculateAllTechnicianKPIs opps items jobs appts weekStart weekEnd)
     = first_occurrences (technicians_in_scan_order opps items jobs appts)"
  by (simp add: calculateAllTechnicianKPIs_eq calculateTechnicianKPIs_def comp_def)

lemma extractTechnicianNames_eq:
  "extractTechnicianNames opps items jobs appts =
     sort (first_occurrences (technicians_in_scan_order opps items jobs appts))"
  unfolding extractTechnicianNames_def Let_def technician_set_scan ..

text \<open>
  Claim C4. \<open>calculateAllTechnicianKPIs\<close> returns the KPIs of one technician after the
  other, one entry for each distinct technician name, in the order in which the names
  first occur when the opportunities, then the line items, then the job times, then the
  appointments are scanned: the names that come before a name \<open>b\<close> in the result are those
  met before the first occurrence of \<open>b\<close> in the scan. The integrator's list of technician
  names is the same set of names sorted, and the two orders differ on some inputs.
\<close>

theorem calculateAllTechnicianKPIs_first_seen_order:
  "calculateAllTechnicianKPIs opps items jobs appts weekStart weekEnd =
     map (\<lambda>tech. calculateTechnicianKPIs tech opps items jobs appts weekStart weekEnd)
       (first_occurrences (technicians_in_scan_order opps items jobs appts))
   \<and> map TechnicianKPIs.technician
       (calculateAllTechnicianKPIs opps items jobs appts weekStart weekEnd)
     = first_occurrences (technicians_in_scan_order opps items jobs appts)
   \<and> distinct (map TechnicianKPIs.technician
       (calculateAllTechnicianKPIs opps items jobs appts weekStart weekEnd))
   \<and> set (map TechnicianKPIs.technician
       (calculateAllTechnicianKPIs opps items jobs appts weekStart weekEnd))
     = set (technicians_in_scan_order opps items jobs appts)
   \<and> (\<forall>b. set (takeWhile (\<lambda>z. z \<noteq> b) (map TechnicianKPIs.technician
              (calculateAllTechnicianKPIs opps items jobs appts weekStart weekEnd)))
          = set (takeWhile (\<lambda>z. z \<noteq> b) (technicians_in_scan_order opps items jobs appts)))
   \<and> extractTechnicianNames opps items jobs appts
     = sort (first_occurrences (technicians_in_scan_order opps items jobs appts))
   \<and> (\<exists>opps' items' jobs' appts'.
         map TechnicianKPIs.technician
           (calculateAllTechnicianKPIs opps' items' jobs' appts' weekStart weekEnd)
         \<noteq> extractTechnicianNames opps' items' jobs' appts')"
proof -
  let ?zed = "sample_opportunity\<lparr>ProcessedOpportunity.technician := ''Zed''\<rparr>"
  let ?amy = "sample_lineItem\<lparr>ProcessedLineItem.technician := ''Amy''\<rparr>"
  have "map TechnicianKPIs.technician
           (calculateAllTechnicianKPIs [?zed] [?amy] [] [] weekStart weekEnd)
         \<noteq> extractTechnicianNames [?zed] [?amy] [] []"
    by (simp add: calculateAllTechnicianKPIs_names extractTechnicianNames_eq
        technicians_in_scan_order_def)
  then have differ: "\<exists>opps' items' jobs' appts'.
         map TechnicianKPIs.technician
           (calculateAllTechnicianKPIs opps' items' jobs' appts' weekStart weekEnd)
         \<noteq> extractTechnicianNames opps' items' jobs' appts'"
    by blast
  show ?thesis
    using differ
    by (simp only: calculateAllTechnicianKPIs_names extractTechnicianNames_eq
        calculateAllTechnicianKPIs_eq [symmetric] first_occurrences_before
        set_first_occurrences distinct_first_occurrences simp_thms)
qed

theorem calculateAllTechnicianKPIs_first_seen_order_witness:
  "map TechnicianKPIs.technician
     (calculateAllTechnicianKPIs
        [sample_opportunity\<lparr>ProcessedOpportunity.technician := ''Zed''\<rparr>, sample_opportunity]
        [sample_lineItem\<lparr>ProcessedLineItem.technician := ''Amy''\<rparr>]
        [sample_jobTime\<lparr>ProcessedJobTime.technician := ''Zed''\<rparr>]
        [sample_appointment\<lparr>ProcessedAppointment.technician := ''Bob''\<rparr>, sample_appointment]
        (Date (Some 0)) (Date (Some 2000)))
     = [''Zed'', ''Jake Harter'', ''Amy'', ''Bob'']
   \<and> extractTechnicianNames
        [sample_opportunity\<lparr>ProcessedOpportunity.technician := ''Zed''\<rparr>, sample_opportunity]
        [sample_lineItem\<lparr>ProcessedLineItem.technician := ''Amy''\<rparr>]
        [sample_jobTime\<lparr>ProcessedJobTime.technician := ''Zed''\<rparr>]
        [sample_appointment\<lparr>ProcessedAppointment.technician := ''Bob''\<rparr>, sample_appointment]
     = [''Amy'', ''Bob'', ''Jake Harter'', ''Zed'']"
proof -
  note order = calculateAllTechnicianKPIs_first_seen_order
    [of "[sample_opportunity\<lparr>ProcessedOpportunity.technician := ''Zed''\<rparr>, sample_opportunity]"
        "[sample_lineItem\<lparr>ProcessedLineItem.technician := ''Amy''\<rparr>]"
        "[sample_jobTime\<lparr>ProcessedJobTime.technician := ''Zed''\<rparr>]"
        "[sample_appointment\<lparr>ProcessedAppointment.technician := ''Bob''\<rparr>, sample_appointment]"
        "Date (Some 0)" "Date (Some 2000)"]
  have scan: "technicians_in_scan_order
        [sample_opportunity\<lparr>ProcessedOpportunity.technician := ''Zed''\<rparr>, sample_opportunity]
        [sample_lineItem\<lparr>ProcessedLineItem.technician := ''Amy''\<rparr>]
        [sample_jobTime\<lparr>ProcessedJobTime.technician := ''Zed''\<rparr>]
        [sample_appointment\<lparr>ProcessedAppointment.technician := ''Bob''\<rparr>, sample_appointment]
      = [''Zed'', ''Jake Harter'', ''Amy'', ''Zed'', ''Bob'', ''Jake Harter'']"
    by (simp add: technicians_in_scan_order_def sample_opportunity_def sample_lineItem_def
        sample_jobTime_def sample_appointment_def)
  have first: "first_occurrences [''Zed'', ''Jake Harter'', ''Amy'', ''Zed'', ''Bob'', ''Jake Harter'']
      = [''Zed'', ''Jake Harter'', ''Amy'', ''Bob'']"
    by simp
  have sorted: "sort [''Zed'', ''Jake Harter'', ''Amy'', ''Bob'']
      = [''Amy'', ''Bob'', ''Jake Harter'', ''Zed'']"
    by simp
  from order show ?thesis
    unfolding scan first sorted by (elim conjE) (rule conjI)
qed

section \<open>Absent files\<close>

lemma processAndIntegrateFiles_Inl_iff:
  "(\<exists>e. processAndIntegrateFiles pO pL pJ pA files = Inl e) \<longleftrightarrow>
     (\<exists>f e. UploadedFiles.opportunities files = Some f \<and> pO f = Inl e)
     \<or> (\<exists>f e. UploadedFiles.lineItems files = Some f \<and> pL f = Inl e)
     \<or> (\<exists>f e. UploadedFiles.jobTimes files = Some f \<and> pJ f = Inl e)
     \<or> (\<exists>f e. UploadedFiles.appointments files = Some f \<and> pA f = Inl e)"
  unfolding processAndIntegrateFiles_def Let_def
  by (auto split: option.splits sum.splits)

lemma processAndIntegrateFiles_Inr:
  assumes "processAndIntegrateFiles pO pL pJ pA files = Inr d"
  shows "(UploadedFiles.opportunities files = None \<longrightarrow> IntegratedData.opportunities d = [])
    \<and> (UploadedFiles.lineItems files = None \<longrightarrow> IntegratedData.lineItems d = [])
    \<and> (UploadedFiles.jobTimes files = None \<longrightarrow> IntegratedData.jobTimes d = [])
    \<and> (UploadedFiles.appointments files = None \<longrightarrow> IntegratedData.appointments d = [])
    \<and> technicianNames d =
        extractTechnicianNames (IntegratedData.opportunities d) (IntegratedData.lineItems d)
          (IntegratedData.jobTimes d) (IntegratedData.appointments d)"
  using assms
  unfolding processAndIntegrateFiles_def Let_def
  by (auto split: option.splits sum.splits simp: cleanOpportunitiesData_def
      cleanLineItemsData_def cleanJobTimesData_def cleanAppointmentsData_def)


lemma set_extractTechnicianNames:
  "set (extractTechnicianNames opps items jobs appts)
     = set (technicians_in_scan_order opps items jobs appts)"
  by (simp add: extractTechnicianNames_eq)

text \<open>
  Claim C6. \<open>processAndIntegrateFiles\<close> fails only when the parser of a file that is present
  fails, never on account of a handle that is absent. When it succeeds, the cleaned
  collection of every absent source is empty, and a technician who appears in none of the
  returned collections (so one who would appear only in an absent source) is neither among
  the technician names nor among the technicians of the KPI results computed from the
  returned collections.
\<close>

theorem absent_files_yield_empty_collections:
  "((\<exists>e. processAndIntegrateFiles pO pL pJ pA files = Inl e) \<longleftrightarrow>
       (\<exists>f e. UploadedFiles.opportunities files = Some f \<and> pO f = Inl e)
       \<or> (\<exists>f e. UploadedFiles.lineItems files = Some f \<and> pL f = Inl e)
       \<or> (\<exists>f e. UploadedFiles.jobTimes files = Some f \<and> pJ f = Inl e)
       \<or> (\<exists>f e. UploadedFiles.appointments files = Some f \<and> pA f = Inl e))
   \<and> (\<forall>d. processAndIntegrateFiles pO pL pJ pA files = Inr d \<longrightarrow>
         (UploadedFiles.opportunities files = None \<longrightarrow> IntegratedData.opportunities d = [])
       \<and> (UploadedFiles.lineItems files = None \<longrightarrow> IntegratedData.lineItems d = [])
       \<and> (UploadedFiles.jobTimes files = None \<longrightarrow> IntegratedData.jobTimes d = [])
       \<and> (UploadedFiles.appointments files = None \<longrightarrow> IntegratedData.appointments d = [])
       \<and> (\<forall>t. t \<notin> set (technicians_in_scan_order (IntegratedData.opportunities d)
                        (IntegratedData.lineItems d) (IntegratedData.jobTimes d)
                        (IntegratedData.appointments d)) \<longrightarrow>
              t \<notin> set (technicianNames d)
              \<and> (\<forall>weekStart weekEnd.
                    t \<notin> set (map TechnicianKPIs.technician
                      (calculateAllTechnicianKPIs (IntegratedData.opportunities d)
                         (IntegratedData.lineItems d) (IntegratedData.jobTimes d)
                         (IntegratedData.appointments d) weekStart weekEnd)))))"
proof -
  have fails: "(\<exists>e. processAndIntegrateFiles pO pL pJ pA files = Inl e) \<longleftrightarrow>
       (\<exists>f e. UploadedFiles.opportunities files = Some f \<and> pO f = Inl e)
       \<or> (\<exists>f e. UploadedFiles.lineItems files = Some f \<and> pL f = Inl e)
       \<or> (\<exists>f e. UploadedFiles.jobTimes files = Some f \<and> pJ f = Inl e)
       \<or> (\<exists>f e. UploadedFiles.appointments files = Some f \<and> pA f = Inl e)"
    by (rule processAndIntegrateFiles_Inl_iff)
  have succeeds: "(UploadedFiles.opportunities files = None \<longrightarrow> IntegratedData.opportunities d = [])
       \<and> (UploadedFiles.lineItems files = None \<longrightarrow> IntegratedData.lineItems d = [])
       \<and> (UploadedFiles.jobTimes files = None \<longrightarrow> IntegratedData.jobTimes d = [])
       \<and> (UploadedFiles.appointments files = None \<longrightarrow> IntegratedData.appointments d = [])
       \<and> (\<forall>t. t \<notin> set (technicians_in_scan_order (IntegratedData.opportunities d)
                        (IntegratedData.lineItems d) (IntegratedData.jobTimes d)
                        (IntegratedData.appointments d)) \<longrightarrow>
              t \<notin> set (technicianNames d)
              \<and> (\<forall>weekStart weekEnd.
                    t \<notin> set (map TechnicianKPIs.technician
                      (calculateAllTechnicianKPIs (IntegratedData.opportunities d)
                         (IntegratedData.lineItems d) (IntegratedData.jobTimes d)
                         (IntegratedData.appointments d) weekStart weekEnd))))"
    if d: "processAndIntegrateFiles pO pL pJ pA files = Inr d" for d
  proof -
    note r = processAndIntegrateFiles_Inr [OF d]
    from r have names: "technicianNames d =
        extractTechnicianNames (IntegratedData.opportunities d) (IntegratedData.lineItems d)
          (IntegratedData.jobTimes d) (IntegratedData.appointments d)"
      by (elim conjE)
    have univ: "\<forall>t. t \<notin> set (technicians_in_scan_order (IntegratedData.opportunities d)
                        (IntegratedData.lineItems d) (IntegratedData.jobTimes d)
                        (IntegratedData.appointments d)) \<longrightarrow>
              t \<notin> set (technicianNames d)
              \<and> (\<forall>weekStart weekEnd.
                    t \<notin> set (map TechnicianKPIs.technician
                      (calculateAllTechnicianKPIs (IntegratedData.opportunities d)
                         (IntegratedData.lineItems d) (IntegratedData.jobTimes d)
                         (IntegratedData.appointments d) weekStart weekEnd)))"
      unfolding names calculateAllTechnicianKPIs_names set_extractTechnicianNames
        set_first_occurrences by simp
    from r univ show ?thesis by (elim conjE) (intro conjI)
  qed
  from fails succeeds show ?thesis by blast
qed

theorem absent_files_yield_empty_collections_witness:
  "(\<exists>d. processAndIntegrateFiles
           (\<lambda>f::nat. Inr [sample_opportunity\<lparr>ProcessedOpportunity.technician := ''Zed''\<rparr>])
           (\<lambda>f. Inr [sample_lineItem]) (\<lambda>f. Inr []) (\<lambda>f. Inr [sample_appointment])
           \<lparr>UploadedFiles.opportunities = None, UploadedFiles.lineItems = Some 1,
            UploadedFiles.jobTimes = None, UploadedFiles.appointments = Some 3\<rparr> = Inr d
        \<and> IntegratedData.opportunities d = [] \<and> IntegratedData.jobTimes d = []
        \<and> IntegratedData.lineItems d = [sample_lineItem]
        \<and> ''Zed'' \<notin> set (technicianNames d)
        \<and> ''Zed'' \<notin> set (map TechnicianKPIs.technician
             (calculateAllTechnicianKPIs (IntegratedData.opportunities d)
                (IntegratedData.lineItems d) (IntegratedData.jobTimes d)
                (IntegratedData.appointments d) (Date (Some 0)) (Date (Some 2000)))))"
proof -
  let ?files = "\<lparr>UploadedFiles.opportunities = None, UploadedFiles.lineItems = Some (1::nat),
            UploadedFiles.jobTimes = None, UploadedFiles.appointments = Some 3\<rparr>"
  let ?run = "processAndIntegrateFiles
           (\<lambda>f::nat. Inr [sample_opportunity\<lparr>ProcessedOpportunity.technician := ''Zed''\<rparr>])
           (\<lambda>f. Inr [sample_lineItem]) (\<lambda>f. Inr []) (\<lambda>f. Inr [sample_appointment]) ?files"
  have "\<not> (\<exists>e. ?run = Inl e)"
    unfolding processAndIntegrateFiles_def Let_def by simp
  then obtain d where d: "?run = Inr d"
    by (cases ?run) auto
  have items: "IntegratedData.lineItems d = [sample_lineItem]"
    using d unfolding processAndIntegrateFiles_def Let_def
    by (auto simp: cleanLineItemsData_def sample_lineItem_def truthy_string_def)
  have appts: "IntegratedData.appointments d = [sample_appointment]"
    using d unfolding processAndIntegrateFiles_def Let_def
    by (auto simp: cleanAppointmentsData_def sample_appointment_def truthy_string_def)
  note t = absent_files_yield_empty_collections
    [of "\<lambda>f::nat. Inr [sample_opportunity\<lparr>ProcessedOpportunity.technician := ''Zed''\<rparr>]"
        "\<lambda>f. Inr [sample_lineItem]" "\<lambda>f. Inr []" "\<lambda>f. Inr [sample_appointment]" ?files]
  from t d have e: "IntegratedData.opportunities d = []" "IntegratedData.jobTimes d = []"
    by simp_all
  have "''Zed'' \<notin> set (technicians_in_scan_order (IntegratedData.opportunities d)
                        (IntegratedData.lineItems d) (IntegratedData.jobTimes d)
                        (IntegratedData.appointments d))"
    unfolding e items appts
    by (simp add: technicians_in_scan_order_def sample_lineItem_def sample_appointment_def)
  with t d have "''Zed'' \<notin> set (technicianNames d)
        \<and> ''Zed'' \<notin> set (map TechnicianKPIs.technician
             (calculateAllTechnicianKPIs (IntegratedData.opportunities d)
                (IntegratedData.lineItems d) (IntegratedData.jobTimes d)
                (IntegratedData.appointments d) (Date (Some 0)) (Date (Some 2000))))"
    by blast
  with d e items show ?thesis by blast
qed

section \<open>Technician name normalisation\<close>

lemmas normalize_eval =
  normalizeTechnicianName_def truthy_string_def trim_def isWhiteSpace_def
  nameMap_get_def nameMap_def Object_prototype_properties_def

lemma single_spaced_replace:
  "single_spaced s \<Longrightarrow> replace_whitespace_runs s = s"
  by (induction s rule: single_spaced.induct) (auto split: if_splits)

lemma single_spaced_last:
  "single_spaced s \<Longrightarrow> s \<noteq> [] \<Longrightarrow> \<not> isWhiteSpace (last s)"
  by (induction s rule: single_spaced.induct) (auto split: if_splits)

lemma trim_unchanged:
  assumes "s \<noteq> []" "\<not> isWhiteSpace (hd s)" "\<not> isWhiteSpace (last s)"
  shows "trim s = s"
proof -
  have a: "dropWhile isWhiteSpace s = s"
    using assms(1,2) by (cases s) auto
  have "rev s \<noteq> []" "\<not> isWhiteSpace (hd (rev s))"
    using assms(1,3) by (simp_all add: hd_rev)
  then have b: "dropWhile isWhiteSpace (rev s) = rev s"
    by (cases "rev s") auto
  show ?thesis unfolding trim_def a b by simp
qed

lemma replace_nonempty:
  "t \<noteq> [] \<Longrightarrow> \<not> isWhiteSpace (hd t) \<Longrightarrow>
     replace_whitespace_runs t \<noteq> [] \<and> hd (replace_whitespace_runs t) = hd t"
  by (cases t) auto

lemma last_dropWhile:
  "dropWhile P xs \<noteq> [] \<Longrightarrow> last (dropWhile P xs) = last xs"
  by (induction xs) (auto split: if_splits)

lemma replace_single_spaced:
  "t = [] \<or> \<not> isWhiteSpace (last t) \<Longrightarrow> single_spaced (replace_whitespace_runs t)"
proof (induction t rule: replace_whitespace_runs.induct)
  case 1
  show ?case by simp
next
  case (2 c cs)
  show ?case
  proof (cases "isWhiteSpace c")
    case True
    with 2(3) have cs: "cs \<noteq> []" "\<not> isWhiteSpace (last cs)"
      by (auto split: if_splits)
    then have "\<exists>x \<in> set cs. \<not> isWhiteSpace x"
      using last_in_set by blast
    then have ne: "dropWhile isWhiteSpace cs \<noteq> []"
      by simp
    then obtain d ds where d: "dropWhile isWhiteSpace cs = d # ds"
      by (cases "dropWhile isWhiteSpace cs") auto
    have nd: "\<not> isWhiteSpace d"
      using hd_dropWhile [OF ne] d by simp
    have "last (dropWhile isWhiteSpace cs) = last cs"
      using ne by (rule last_dropWhile)
    with cs(2) have "single_spaced (replace_whitespace_runs (dropWhile isWhiteSpace cs))"
      using 2(1) [OF True] by simp
    with True d nd show ?thesis by simp
  next
    case False
    show ?thesis
    proof (cases cs)
      case Nil
      with False show ?thesis by simp
    next
      case (Cons d ds)
      with 2(3) have "\<not> isWhiteSpace (last cs)" by simp
      with 2(2) [OF False] have ss: "single_spaced (replace_whitespace_runs cs)" by simp
      have "replace_whitespace_runs cs \<noteq> []"
        using Cons by auto
      then obtain e es where "replace_whitespace_runs cs = e # es"
        by (cases "replace_whitespace_runs cs") auto
      with ss False show ?thesis by simp
    qed
  qed
qed

lemma trim_ends:
  "trim s = [] \<or> (\<not> isWhiteSpace (hd (trim s)) \<and> \<not> isWhiteSpace (last (trim s)))"
proof (cases "trim s = []")
  case True
  then show ?thesis by simp
next
  case False
  define u where "u = dropWhile isWhiteSpace s"
  define v where "v = dropWhile isWhiteSpace (rev u)"
  have t: "trim s = rev v" by (simp add: trim_def u_def v_def)
  with False have v: "v \<noteq> []" by simp
  then have "rev u \<noteq> []" unfolding v_def by auto
  then have u: "u \<noteq> []" by simp
  have "\<not> isWhiteSpace (hd v)"
    using hd_dropWhile [of isWhiteSpace "rev u"] v unfolding v_def by simp
  then have l: "\<not> isWhiteSpace (last (trim s))"
    using v by (simp add: t last_rev)
  have "last v = last (rev u)"
    using v unfolding v_def by (rule last_dropWhile)
  also have "\<dots> = hd u" using u by (simp add: last_rev)
  finally have "hd (trim s) = hd u" using v by (simp add: t hd_rev)
  moreover have "\<not> isWhiteSpace (hd u)"
    using hd_dropWhile [of isWhiteSpace s] u unfolding u_def by simp
  ultimately show ?thesis using l by simp
qed

lemma normalized_fixed:
  "replace_whitespace_runs (trim (replace_whitespace_runs (trim s)))
     = replace_whitespace_runs (trim s)"
proof (cases "trim s = []")
  case True
  have "trim [] = []" by (simp add: trim_def)
  with True show ?thesis by simp
next
  case False
  with trim_ends [of s]
  have e: "\<not> isWhiteSpace (hd (trim s))" "\<not> isWhiteSpace (last (trim s))" by auto
  define n where "n = replace_whitespace_runs (trim s)"
  have ss: "single_spaced n"
    unfolding n_def using e(2) by (intro replace_single_spaced) simp
  have ne: "n \<noteq> []" and hd: "hd n = hd (trim s)"
    using replace_nonempty [OF False e(1)] unfolding n_def by auto
  have "trim n = n"
    using ne e(1) single_spaced_last [OF ss ne] by (intro trim_unchanged) (simp_all add: hd)
  then show ?thesis
    using single_spaced_replace [OF ss] unfolding n_def by simp
qed

lemma normalized_nonempty:
  assumes "\<not> list_all isWhiteSpace s"
  shows "replace_whitespace_runs (trim s) \<noteq> []"
proof -
  define u where "u = dropWhile isWhiteSpace s"
  from assms have u: "u \<noteq> []"
    unfolding u_def by (auto simp: list_all_iff)
  have "\<not> isWhiteSpace (hd u)"
    using hd_dropWhile [of isWhiteSpace s] u unfolding u_def by simp
  moreover have "hd u \<in> set (rev u)" using u by simp
  ultimately have "dropWhile isWhiteSpace (rev u) \<noteq> []"
    by auto
  then have t: "trim s \<noteq> []" by (simp add: trim_def u_def)
  with trim_ends [of s] have "\<not> isWhiteSpace (hd (trim s))" by auto
  from replace_nonempty [OF t this] show ?thesis by simp
qed

lemma canonical_names_fixed:
  "(k, v) \<in> set nameMap \<Longrightarrow> v \<noteq> [] \<and> normalizeTechnicianName (Some v) = Str v"
  unfolding nameMap_def
  by (auto simp: normalize_eval)


lemma nameMap_values_nonempty: "map_of nameMap k = Some v \<Longrightarrow> v \<noteq> []"
  using canonical_names_fixed [of k v] by (auto dest: map_of_SomeD)

lemma normalizeTechnicianName_string:
  assumes "s \<noteq> []"
  shows "normalizeTechnicianName (Some s) =
     (case map_of nameMap (replace_whitespace_runs (trim s)) of
        Some v \<Rightarrow> Str v
      | None \<Rightarrow>
          if replace_whitespace_runs (trim s) \<in> set Object_prototype_properties
          then Inherited (replace_whitespace_runs (trim s))
          else Str (replace_whitespace_runs (trim s)))"
  using assms
  by (auto simp: normalizeTechnicianName_def nameMap_get_def truthy_string_def Let_def
      split: option.splits dest: nameMap_values_nonempty)

lemma normalizeTechnicianName_refines_spec:
  assumes "replace_whitespace_runs (trim s) \<notin> set Object_prototype_properties"
  shows "normalizeTechnicianName (Some s) = Str (normalizeTechnicianName_spec (Some s))"
proof (cases "s = []")
  case True
  then show ?thesis
    by (simp add: normalizeTechnicianName_def normalizeTechnicianName_spec_def truthy_string_def)
next
  case False
  with assms show ?thesis
    by (simp add: normalizeTechnicianName_string normalizeTechnicianName_spec_def
        split: option.splits)
qed

lemma normalizeTechnicianName_examples:
  "normalizeTechnicianName (Some ''Aaron'') = Str ''Aaron McDaniel''"
  "normalizeTechnicianName (Some ''  Jake   H '') = Str ''Jake Harter''"
  "normalizeTechnicianName None = Str ''Unknown Technician''"
  "normalizeTechnicianName (Some []) = Str ''Unknown Technician''"
  "normalizeTechnicianName (Some ''Dana  Cruz'') = Str ''Dana Cruz''"
  "normalizeTechnicianName (Some (''Jake'' @ [CHR 0xA0] @ ''H'')) = Str ''Jake Harter''"
  "normalizeTechnicianName (Some [CHR 0xA0]) = Str []"
  by (simp_all add: normalize_eval)

text \<open>
  Claim C7. The claim is that \<open>normalizeTechnicianName\<close> returns the sentinel for a null or
  empty input and otherwise the trimmed, single-spaced name mapped through the alias
  table, an unmapped name being returned unchanged. The code agrees with this reading
  (\<open>normalizeTechnicianName_spec\<close>) on every name whose normalised form is not the name of a
  property that the alias table object inherits (\<open>normalizeTechnicianName_refines_spec\<close>),
  and the examples of the claim hold (\<open>normalizeTechnicianName_examples\<close>). On the unmapped
  name \<open>constructor\<close> the lookup finds the inherited property, which is truthy, and the
  function returns it instead of the name.
\<close>

theorem normalizeTechnicianName_inherited_property:
  "normalizeTechnicianName (Some ''constructor'') = Inherited ''constructor''
   \<and> normalizeTechnicianName_spec (Some ''constructor'') = ''constructor''
   \<and> normalizeTechnicianName (Some ''constructor'')
       \<noteq> Str (normalizeTechnicianName_spec (Some ''constructor''))"
  by (simp add: normalize_eval normalizeTechnicianName_spec_def)

text \<open>
  Claim C8, as stated, fails: a name that consists of white space only is normalised to
  the empty string, and the empty string is normalised to the sentinel.
\<close>

theorem normalizeTechnicianName_not_idempotent:
  "normalizeTechnicianName (Some '' '') = Str []
   \<and> normalizeTechnicianName (Some []) = Str ''Unknown Technician''
   \<and> normalizeTechnicianName (Some []) \<noteq> normalizeTechnicianName (Some '' '')"
  by (simp add: normalize_eval)

text \<open>
  Claim C8, amended. For every input that is null, empty or contains a character that is
  not white space, and whose normalised form is not the name of a property inherited by the
  alias table object, normalising the result of \<open>normalizeTechnicianName\<close> again returns
  the same string.
\<close>

theorem normalizeTechnicianName_idempotent_on_names:
  assumes "s = [] \<or> \<not> list_all isWhiteSpace s"
    and "replace_whitespace_runs (trim s) \<notin> set Object_prototype_properties"
  shows "(\<exists>r. normalizeTechnicianName (Some s) = Str r
              \<and> normalizeTechnicianName (Some r) = Str r)
    \<and> normalizeTechnicianName None = Str ''Unknown Technician''
    \<and> normalizeTechnicianName (Some ''Unknown Technician'') = Str ''Unknown Technician''"
proof -
  have sentinel: "normalizeTechnicianName (Some ''Unknown Technician'') = Str ''Unknown Technician''"
    by (simp add: normalize_eval)
  have null: "normalizeTechnicianName None = Str ''Unknown Technician''"
    by (simp add: normalizeTechnicianName_def)
  have "\<exists>r. normalizeTechnicianName (Some s) = Str r
              \<and> normalizeTechnicianName (Some r) = Str r"
  proof (cases "s = []")
    case True
    then have "normalizeTechnicianName (Some s) = Str ''Unknown Technician''"
      by (simp add: normalizeTechnicianName_def truthy_string_def)
    with sentinel show ?thesis by blast
  next
    case False
    define n where "n = replace_whitespace_runs (trim s)"
    from False assms(1) have n: "n \<noteq> []"
      unfolding n_def by (intro normalized_nonempty) simp
    have fixed: "replace_whitespace_runs (trim n) = n"
      unfolding n_def by (rule normalized_fixed)
    show ?thesis
    proof (cases "map_of nameMap n")
      case None
      with assms(2) have first: "normalizeTechnicianName (Some s) = Str n"
        by (simp add: normalizeTechnicianName_string [OF False] n_def)
      from None assms(2) have "normalizeTechnicianName (Some n) = Str n"
        by (simp add: normalizeTechnicianName_string [OF n] fixed n_def [symmetric])
      with first show ?thesis by blast
    next
      case (Some v)
      then have first: "normalizeTechnicianName (Some s) = Str v"
        by (simp add: normalizeTechnicianName_string [OF False] n_def)
      from Some have "(n, v) \<in> set nameMap" by (rule map_of_SomeD)
      then have "normalizeTechnicianName (Some v) = Str v"
        using canonical_names_fixed by blast
      with first show ?thesis by blast
    qed
  qed
  with null sentinel show ?thesis by simp
qed

theorem normalizeTechnicianName_idempotent_on_names_witness:
  "(\<exists>r. normalizeTechnicianName (Some ''  Jake   H '') = Str r
        \<and> normalizeTechnicianName (Some r) = Str r)
   \<and> normalizeTechnicianName (Some ''  Jake   H '') = Str ''Jake Harter''"
proof -
  have h1: "''  Jake   H '' = [] \<or> \<not> list_all isWhiteSpace ''  Jake   H ''"
    by (simp add: isWhiteSpace_def)
  have h2: "replace_whitespace_runs (trim ''  Jake   H '') \<notin> set Object_prototype_properties"
    by (simp add: trim_def isWhiteSpace_def Object_prototype_properties_def)
  have "normalizeTechnicianName (Some ''  Jake   H '') = Str ''Jake Harter''"
    by (simp add: normalize_eval)
  with normalizeTechnicianName_idempotent_on_names [OF h1 h2] show ?thesis by simp
qed

section \<open>The quantity of a line item\<close>

lemmas parseInt_eval =
  parseLineItemsFile_quantity_def parseInt_def isWhiteSpace_def isDigit_def digit_value_def

lemma quantity_defaults_to_one:
  assumes "parseInt (String_of v) = None \<or> parseInt (String_of v) = Some 0"
  shows "parseLineItemsFile_quantity (OtherCell v) = 1"
  using assms by (auto simp: parseLineItemsFile_quantity_def)

lemma cleanLineItemsData_single:
  "cleanLineItemsData [item] = [item] \<longleftrightarrow> lineItem_invariants item"
  by (simp add: cleanLineItemsData_filter)

text \<open>
  Claim C9. When the Quantity cell of a line item row is not a native number and its
  string form does not parse to an integer other than 0 (a missing cell and the string
  \<open>0\<close> included), the parser stores the quantity 1, so the quantity check of the cleaner
  never rejects the record: it is kept exactly when its job identifier and technician are
  present and its price is not negative. A native number 0 stays 0. Currency, percentage
  and duration texts that do not parse give 0 instead.
\<close>

theorem unparsable_quantity_defaults_to_one:
  "(parseInt (String_of v) = None \<or> parseInt (String_of v) = Some 0 \<longrightarrow>
       parseLineItemsFile_quantity (OtherCell v) = 1
       \<and> (\<forall>item. quantity item = parseLineItemsFile_quantity (OtherCell v) \<longrightarrow>
              \<not> quantity item \<le> 0
              \<and> (cleanLineItemsData [item] = [item] \<longleftrightarrow>
                   ProcessedLineItem.jobId item \<noteq> [] \<and> ProcessedLineItem.technician item \<noteq> []
                   \<and> 0 \<le> price item)))
   \<and> parseLineItemsFile_quantity (OtherCell UndefinedValue) = 1
   \<and> parseLineItemsFile_quantity (OtherCell (StringValue ''0'')) = 1
   \<and> parseLineItemsFile_quantity (OtherCell (StringValue ''abc'')) = 1
   \<and> parseLineItemsFile_quantity (NumberCell 0) = 0
   \<and> parseLineItemsFile_quantity (OtherCell (StringValue [CHR 0xA0, CHR ''0''])) = 1
   \<and> parseLineItemsFile_quantity (OtherCell (StringValue [CHR 0xA0, CHR ''5''])) = 5
   \<and> (s \<noteq> [] \<and> parseFloat (filter (\<lambda>c. c \<noteq> CHR ''$'' \<and> c \<noteq> CHR '','') s) = NaN \<longrightarrow>
        parseCurrency (Some s) = Num 0)
   \<and> (s \<noteq> [] \<and> parseFloat (filter (\<lambda>c. c \<noteq> CHR ''%'' \<and> \<not> isWhiteSpace c) s) = NaN \<longrightarrow>
        parsePercentage (Some s) = Num 0)
   \<and> (regex_match s = None \<longrightarrow> parseTimeToMinutes (Some s) = 0)
   \<and> parseCurrency (Some ''n/a'') = Num 0
   \<and> parsePercentage (Some ''n/a'') = Num 0
   \<and> parseTimeToMinutes (Some ''n/a'') = 0"
proof -
  have q: "parseInt (String_of v) = None \<or> parseInt (String_of v) = Some 0 \<longrightarrow>
       parseLineItemsFile_quantity (OtherCell v) = 1
       \<and> (\<forall>item. quantity item = parseLineItemsFile_quantity (OtherCell v) \<longrightarrow>
              \<not> quantity item \<le> 0
              \<and> (cleanLineItemsData [item] = [item] \<longleftrightarrow>
                   ProcessedLineItem.jobId item \<noteq> [] \<and> ProcessedLineItem.technician item \<noteq> []
                   \<and> 0 \<le> price item))"
  proof
    assume a: "parseInt (String_of v) = None \<or> parseInt (String_of v) = Some 0"
    then have one: "parseLineItemsFile_quantity (OtherCell v) = 1"
      by (rule quantity_defaults_to_one)
    have "\<not> quantity item \<le> 0
              \<and> (cleanLineItemsData [item] = [item] \<longleftrightarrow>
                   ProcessedLineItem.jobId item \<noteq> [] \<and> ProcessedLineItem.technician item \<noteq> []
                   \<and> 0 \<le> price item)"
      if "quantity item = parseLineItemsFile_quantity (OtherCell v)" for item
      using that one
      by (cases "invoiceDate item") (simp add: cleanLineItemsData_single lineItem_invariants_def)
    with one show "parseLineItemsFile_quantity (OtherCell v) = 1
       \<and> (\<forall>item. quantity item = parseLineItemsFile_quantity (OtherCell v) \<longrightarrow>
              \<not> quantity item \<le> 0
              \<and> (cleanLineItemsData [item] = [item] \<longleftrightarrow>
                   ProcessedLineItem.jobId item \<noteq> [] \<and> ProcessedLineItem.technician item \<noteq> []
                   \<and> 0 \<le> price item))"
      by blast
  qed
  have e1: "parseLineItemsFile_quantity (OtherCell UndefinedValue) = 1"
    by (simp add: parseInt_eval)
  have e2: "parseLineItemsFile_quantity (OtherCell (StringValue ''0'')) = 1"
    by (simp add: parseInt_eval)
  have e3: "parseLineItemsFile_quantity (OtherCell (StringValue ''abc'')) = 1"
    by (simp add: parseInt_eval)
  have e4: "parseLineItemsFile_quantity (NumberCell 0) = 0"
    by (simp add: parseLineItemsFile_quantity_def)
  have e5: "parseLineItemsFile_quantity (OtherCell (StringValue [CHR 0xA0, CHR ''0''])) = 1"
    by (simp add: parseInt_eval)
  have e6: "parseLineItemsFile_quantity (OtherCell (StringValue [CHR 0xA0, CHR ''5''])) = 5"
    by (simp add: parseInt_eval)
  have c: "s \<noteq> [] \<and> parseFloat (filter (\<lambda>c. c \<noteq> CHR ''$'' \<and> c \<noteq> CHR '','') s) = NaN \<longrightarrow>
        parseCurrency (Some s) = Num 0"
    by (simp add: parseCurrency_def truthy_string_def)
  have p: "s \<noteq> [] \<and> parseFloat (filter (\<lambda>c. c \<noteq> CHR ''%'' \<and> \<not> isWhiteSpace c) s) = NaN \<longrightarrow>
        parsePercentage (Some s) = Num 0"
    by (simp add: parsePercentage_def truthy_string_def)
  have t: "regex_match s = None \<longrightarrow> parseTimeToMinutes (Some s) = 0"
    by (simp add: parseTimeToMinutes_def)
  have x1: "parseCurrency (Some ''n/a'') = Num 0"
    by (simp add: parseCurrency_def parseFloat_def truthy_string_def isWhiteSpace_def isDigit_def)
  have x2: "parsePercentage (Some ''n/a'') = Num 0"
    by (simp add: parsePercentage_def parseFloat_def truthy_string_def isWhiteSpace_def isDigit_def)
  have x3: "parseTimeToMinutes (Some ''n/a'') = 0"
    by (simp add: parseTimeToMinutes_def truthy_string_def match_here_def isDigit_def)
  from q e1 e2 e3 e4 e5 e6 c p t x1 x2 x3 show ?thesis by (intro conjI)
qed

theorem unparsable_quantity_defaults_to_one_witness:
  "parseInt (String_of (StringValue ''0'')) = Some 0
   \<and> parseLineItemsFile_quantity (OtherCell (StringValue ''0'')) = 1
   \<and> cleanLineItemsData
        [sample_lineItem\<lparr>quantity := parseLineItemsFile_quantity (OtherCell (StringValue ''0''))\<rparr>]
      = [sample_lineItem\<lparr>quantity := parseLineItemsFile_quantity (OtherCell (StringValue ''0''))\<rparr>]"
proof -
  have h: "parseInt (String_of (StringValue ''0'')) = Some 0"
    by (simp add: parseInt_eval)
  note t = unparsable_quantity_defaults_to_one [of "StringValue ''0''"]
  from t h have one: "parseLineItemsFile_quantity (OtherCell (StringValue ''0'')) = 1"
    by blast
  from t h have "\<forall>item. quantity item = parseLineItemsFile_quantity (OtherCell (StringValue ''0'')) \<longrightarrow>
              (cleanLineItemsData [item] = [item] \<longleftrightarrow>
                   ProcessedLineItem.jobId item \<noteq> [] \<and> ProcessedLineItem.technician item \<noteq> []
                   \<and> 0 \<le> price item)"
    by blast
  then have "cleanLineItemsData
        [sample_lineItem\<lparr>quantity := parseLineItemsFile_quantity (OtherCell (StringValue ''0''))\<rparr>]
      = [sample_lineItem\<lparr>quantity := parseLineItemsFile_quantity (OtherCell (StringValue ''0''))\<rparr>]"
    by (simp add: sample_lineItem_def)
  with h one show ?thesis by simp
qed

end
